theory Spec2Isabelle
  imports Complex_Main
begin

section \<open>Data model (types.ts)\<close>

text \<open>
  The TypeScript declarations
  \<^verbatim>\<open>type QuestionType = 'FreeText' | 'MultipleChoice' | 'SingleChoice' | 'LikertScale'\<close>,
  \<^verbatim>\<open>interface Question { id: string; text: string; type?: QuestionType; options?: string[] }\<close>,
  \<^verbatim>\<open>interface CoreQuestionSection { topic: string; questions: Question[] }\<close> and
  \<^verbatim>\<open>interface GeneratedContent { opening; core; followUps; closing; isQuestionnaire?: boolean }\<close>.
  An optional field is an \<open>option\<close>; the field names \<open>id\<close>, \<open>text\<close>, \<open>type\<close> and
  \<open>options\<close> carry the prefix \<open>q\<close> because \<open>id\<close> and \<open>text\<close> are taken in Isabelle.
  A JavaScript string is modelled as a \<open>string\<close> (a list of bytes).
\<close>

datatype QuestionType = FreeText | MultipleChoice | SingleChoice | LikertScale

record Question =
  qid :: string
  qtext :: string
  qtype :: "QuestionType option"
  qoptions :: "string list option"

record CoreQuestionSection =
  topic :: string
  questions :: "Question list"

record GeneratedContent =
  "opening" :: "Question list"
  core :: "CoreQuestionSection list"
  followUps :: "Question list"
  closing :: "Question list"
  isQuestionnaire :: "bool option"

section \<open>The delimited survey-import serializer (utils/qsfGenerator.ts)\<close>

text \<open>
  A template literal prints a counter in decimal. The counters are JavaScript numbers that
  start at 1 and grow by 1, so they are natural numbers here.
\<close>

definition digit :: "nat \<Rightarrow> char" where
  "digit n = ''0123456789'' ! n"

function decimal :: "nat \<Rightarrow> string" where
  "decimal n = (if n < 10 then [digit n] else decimal (n div 10) @ [digit (n mod 10)])"
  by pat_completeness auto
termination
  by (relation "measure (\<lambda>n. n)") auto

declare decimal.simps [simp del]

text \<open>
  The local variables \<open>mcCounter\<close>, \<open>teCounter\<close> and \<open>lines\<close> of \<open>generateQualtricsTxt\<close>
  are the state that the closures of the function update.
\<close>

record GenState =
  mcCounter :: nat
  teCounter :: nat
  lines :: "string list"

definition push :: "string \<Rightarrow> GenState \<Rightarrow> GenState" where
  "push l st = st\<lparr>lines := lines st @ [l]\<rparr>"

text \<open>\<^verbatim>\<open>question.options?.forEach(opt => lines.push(opt))\<close>\<close>

definition pushOptions :: "string list option \<Rightarrow> GenState \<Rightarrow> GenState" where
  "pushOptions os st =
     (case os of None \<Rightarrow> st | Some xs \<Rightarrow> foldl (\<lambda>s opt. push opt s) st xs)"

text \<open>
  The callback of \<open>questions.forEach\<close> in \<open>processQuestions\<close>. A question without a type
  returns at once; the two cases \<open>SingleChoice\<close> and \<open>LikertScale\<close> share one body.
\<close>

definition processQuestion :: "GenState \<Rightarrow> Question \<Rightarrow> GenState" where
  "processQuestion st question =
     (case qtype question of
        None \<Rightarrow> st
      | Some t \<Rightarrow>
          (let st' =
             (case t of
                SingleChoice \<Rightarrow>
                  (let st1 = push (''MC'' @ decimal (mcCounter st) @ ''. '' @ qtext question)
                                  (st\<lparr>mcCounter := mcCounter st + 1\<rparr>);
                       st2 = push '''' st1
                   in pushOptions (qoptions question) st2)
              | LikertScale \<Rightarrow>
                  (let st1 = push (''MC'' @ decimal (mcCounter st) @ ''. '' @ qtext question)
                                  (st\<lparr>mcCounter := mcCounter st + 1\<rparr>);
                       st2 = push '''' st1
                   in pushOptions (qoptions question) st2)
              | MultipleChoice \<Rightarrow>
                  (let st1 = push (''MC'' @ decimal (mcCounter st) @ ''. '' @ qtext question)
                                  (st\<lparr>mcCounter := mcCounter st + 1\<rparr>);
                       st2 = push ''[[MultipleAnswer]]'' st1;
                       st3 = push '''' st2
                   in pushOptions (qoptions question) st3)
              | FreeText \<Rightarrow>
                  push (''TE'' @ decimal (teCounter st) @ ''. '' @ qtext question)
                       (st\<lparr>teCounter := teCounter st + 1\<rparr>))
           in push '''' st'))"

definition processQuestions :: "GenState \<Rightarrow> Question list \<Rightarrow> GenState" where
  "processQuestions st qs =
     (if length qs = 0 then st else foldl processQuestion st qs)"

text \<open>The callback of \<open>content.core.forEach\<close>.\<close>

definition processCoreSection :: "GenState \<Rightarrow> CoreQuestionSection \<Rightarrow> GenState" where
  "processCoreSection st section =
     (if length (questions section) > 0
      then processQuestions
             (push '''' (push (''[[Block:Core Questions: '' @ topic section @ '']]'') st))
             (questions section)
      else st)"

text \<open>The body of \<open>generateQualtricsTxt\<close> up to the final \<open>join\<close>: the array \<open>lines\<close>.\<close>

definition qualtricsLines :: "GeneratedContent \<Rightarrow> string list" where
  "qualtricsLines content =
     (let st0 = \<lparr>mcCounter = 1, teCounter = 1, lines = []\<rparr>;
          st1 = (if length (opening content) > 0
                 then processQuestions
                        (push '''' (push ''[[Block:Opening / Warm-up Questions]]'' st0))
                        (opening content)
                 else st0);
          st2 = foldl processCoreSection st1 (core content);
          st3 = (if length (followUps content) > 0
                 then processQuestions
                        (push '''' (push ''[[Block:Follow-ups / Probes]]'' st2))
                        (followUps content)
                 else st2);
          st4 = (if length (closing content) > 0
                 then processQuestions
                        (push '''' (push ''[[Block:Closing / Wrap-up]]'' st3))
                        (closing content)
                 else st3)
      in lines st4)"

text \<open>\<open>Array.prototype.join\<close>: the elements with the separator between them.\<close>

fun joinWith :: "string \<Rightarrow> string list \<Rightarrow> string" where
  "joinWith sep [] = []"
| "joinWith sep [x] = x"
| "joinWith sep (x # y # ys) = x @ sep @ joinWith sep (y # ys)"

definition generateQualtricsTxt :: "GeneratedContent \<Rightarrow> string" where
  "generateQualtricsTxt content = joinWith [CHR 0x0A] (qualtricsLines content)"

section \<open>The plain-text renderer (formatContentAsText in the output component)\<close>

definition nl :: string where
  "nl = [CHR 0x0A]"

text \<open>
  The body that follows each of the four \<open>forEach\<close> loops over questions: the question line,
  then, when \<open>q.options\<close> is present (an array is truthy, also when empty), one line per
  option.
\<close>

definition plainQuestion :: "string \<Rightarrow> Question \<Rightarrow> string" where
  "plainQuestion text q =
     (let text1 = text @ ''- '' @ qtext q @ nl
      in case qoptions q of
           None \<Rightarrow> text1
         | Some os \<Rightarrow> foldl (\<lambda>t opt. t @ ''  - '' @ opt @ nl) text1 os)"

text \<open>The callback of \<open>content.core.forEach\<close>.\<close>

definition plainCoreSection :: "string \<Rightarrow> CoreQuestionSection \<Rightarrow> string" where
  "plainCoreSection text section =
     (let text1 = text @ ''## Core Questions: '' @ topic section @ nl;
          text2 = foldl plainQuestion text1 (questions section)
      in text2 @ nl)"

text \<open>\<open>content\<close> is the component's property of type \<open>GeneratedContent | null\<close>.\<close>

definition formatContentAsText :: "GeneratedContent option \<Rightarrow> string" where
  "formatContentAsText content =
     (case content of
        None \<Rightarrow> []
      | Some c \<Rightarrow>
          (let text0 = [];
               text1 = text0 @ ''## Opening / Warm-up Questions'' @ nl;
               text2 = foldl plainQuestion text1 (opening c);
               text3 = text2 @ nl;
               text4 = foldl plainCoreSection text3 (core c);
               text5 = text4 @ ''## Follow-ups / Probes'' @ nl;
               text6 = foldl plainQuestion text5 (followUps c);
               text7 = text6 @ nl;
               text8 = text7 @ ''## Closing / Wrap-up'' @ nl;
               text9 = foldl plainQuestion text8 (closing c)
           in text9))"

section \<open>The paginated layout (handleExportPDF in the output component)\<close>

text \<open>
  The PDF library is not part of the repository. What the function asks of it is kept as
  parameters: the page size (\<open>pageWidth\<close>, \<open>pageHeight\<close>) and \<open>splitTextToSize\<close>, which
  wraps a text to a width under the current font size and style. What the function tells
  it is recorded: each call of \<open>pdf.text\<close> with the page, the font and the position, and
  the number of pages added. Lengths are rational numbers: every value of the cursor is
  a multiple of one half, on which the arithmetic of doubles is exact.
\<close>

record TextOp =
  opPage :: nat
  opFontSize :: nat
  opBold :: bool
  opLines :: "string list"
  opX :: rat
  opY :: rat
  opCentered :: bool

text \<open>\<open>cursorY\<close> is the variable \<open>y\<close> of the function; the other fields are the document.\<close>

record PdfState =
  cursorY :: rat
  page :: nat
  fontSize :: nat
  bold :: bool
  ops :: "TextOp list"

type_synonym Splitter = "nat \<Rightarrow> bool \<Rightarrow> string \<Rightarrow> rat \<Rightarrow> string list"

definition margin :: rat where
  "margin = 15"

definition checkPageBreak :: "rat \<Rightarrow> rat \<Rightarrow> PdfState \<Rightarrow> PdfState" where
  "checkPageBreak pageHeight neededHeight st =
     (if cursorY st + neededHeight > pageHeight - margin
      then st\<lparr>page := page st + 1, cursorY := margin\<rparr>
      else st)"

definition setFontSize :: "nat \<Rightarrow> PdfState \<Rightarrow> PdfState" where
  "setFontSize n st = st\<lparr>fontSize := n\<rparr>"

definition setFontBold :: "bool \<Rightarrow> PdfState \<Rightarrow> PdfState" where
  "setFontBold b st = st\<lparr>bold := b\<rparr>"

definition pdfText :: "string list \<Rightarrow> rat \<Rightarrow> bool \<Rightarrow> PdfState \<Rightarrow> PdfState" where
  "pdfText ls x centered st =
     st\<lparr>ops := ops st @
        [\<lparr>opPage = page st, opFontSize = fontSize st, opBold = bold st, opLines = ls,
          opX = x, opY = cursorY st, opCentered = centered\<rparr>]\<rparr>"

definition advance :: "rat \<Rightarrow> PdfState \<Rightarrow> PdfState" where
  "advance h st = st\<lparr>cursorY := cursorY st + h\<rparr>"

text \<open>
  The bullet of an option line is copied byte by byte from the source file, where the
  template literal is four spaces, the seven bytes below and a space.
\<close>

definition bullet :: string where
  "bullet = [CHR 0xC3, CHR 0xA2, CHR 0xE2, CHR 0x82, CHR 0xAC, CHR 0xC2, CHR 0xA2]"

text \<open>The callback of \<open>q.options.forEach\<close>.\<close>

definition addOption :: "Splitter \<Rightarrow> rat \<Rightarrow> rat \<Rightarrow> PdfState \<Rightarrow> string \<Rightarrow> PdfState" where
  "addOption split pageHeight maxLineWidth st opt =
     (let optionText = ''    '' @ bullet @ '' '' @ opt;
          optionLines = split (fontSize st) (bold st) optionText (maxLineWidth - 10);
          st1 = checkPageBreak pageHeight (of_nat (length optionLines) * (9 / 2)) st;
          st2 = pdfText optionLines (margin + 5) False st1
      in advance (of_nat (length optionLines) * (9 / 2)) st2)"

text \<open>The callback of \<open>questions.forEach\<close> in \<open>addSection\<close>.\<close>

definition addQuestion :: "Splitter \<Rightarrow> rat \<Rightarrow> rat \<Rightarrow> PdfState \<Rightarrow> Question \<Rightarrow> PdfState" where
  "addQuestion split pageHeight maxLineWidth st q =
     (let st1 = setFontBold False (setFontSize 11 st);
          questionText = ''- '' @ qtext q;
          questionLines = split (fontSize st1) (bold st1) questionText (maxLineWidth - 5);
          st2 = checkPageBreak pageHeight (of_nat (length questionLines) * 5 + 2) st1;
          st3 = pdfText questionLines (margin + 2) False st2;
          st4 = advance (of_nat (length questionLines) * 5 + 2) st3
      in case qoptions q of
           None \<Rightarrow> st4
         | Some os \<Rightarrow>
             (if length os > 0
              then advance 2 (foldl (addOption split pageHeight maxLineWidth)
                                    (setFontSize 10 st4) os)
              else st4))"

definition addSection ::
  "Splitter \<Rightarrow> rat \<Rightarrow> rat \<Rightarrow> string \<Rightarrow> Question list \<Rightarrow> PdfState \<Rightarrow> PdfState" where
  "addSection split pageHeight maxLineWidth title qs st =
     (if length qs = 0 then st
      else
        (let st1 = setFontBold True (setFontSize 14 st);
             sectionTitleLines = split (fontSize st1) (bold st1) title maxLineWidth;
             st2 = checkPageBreak pageHeight (of_nat (length sectionTitleLines) * 7 + 8) st1;
             st3 = pdfText sectionTitleLines margin False st2;
             st4 = advance (of_nat (length sectionTitleLines) * 7 + 4) st3;
             st5 = foldl (addQuestion split pageHeight maxLineWidth) st4 qs
         in advance 5 st5))"

text \<open>
  \<open>handleExportPDF\<close> up to \<open>pdf.save\<close>: the state of the document that is saved, or
  \<open>None\<close> when \<open>content\<close> is null and the function returns at once. A new document has
  one page and the library's default font (size 16, normal).
\<close>

definition handleExportPDF ::
  "Splitter \<Rightarrow> rat \<Rightarrow> rat \<Rightarrow> GeneratedContent option \<Rightarrow> PdfState option" where
  "handleExportPDF split pageWidth pageHeight content =
     (case content of
        None \<Rightarrow> None
      | Some c \<Rightarrow>
          (let maxLineWidth = pageWidth - margin * 2;
               st0 = \<lparr>cursorY = margin, page = 1, fontSize = 16, bold = False, ops = []\<rparr>;
               st1 = setFontBold True (setFontSize 18 st0);
               title = (if isQuestionnaire c = Some True
                        then ''Generated Questionnaire'' else ''Generated Script'');
               titleLines = split (fontSize st1) (bold st1) title maxLineWidth;
               st2 = checkPageBreak pageHeight (of_nat (length titleLines) * 8) st1;
               st3 = pdfText titleLines (pageWidth / 2) True st2;
               st4 = advance (of_nat (length titleLines) * 8 + 10) st3;
               st5 = addSection split pageHeight maxLineWidth
                       ''Opening / Warm-up Questions'' (opening c) st4;
               st6 = foldl (\<lambda>st section.
                              addSection split pageHeight maxLineWidth
                                (''Core Questions: '' @ topic section) (questions section) st)
                           st5 (core c);
               st7 = addSection split pageHeight maxLineWidth
                       ''Follow-ups / Probes'' (followUps c) st6;
               st8 = addSection split pageHeight maxLineWidth
                       ''Closing / Wrap-up'' (closing c) st7
           in Some st8))"

section \<open>The text edit (updateQuestionText in the output component)\<close>

text \<open>
  \<open>section\<close> has the type \<open>keyof GeneratedContent\<close>. The function is the updater given
  to \<open>setContent\<close>: it maps the previous content to the next one. A property access on
  \<open>undefined\<close> and a call of a method that a value does not have raise a \<open>TypeError\<close>.
\<close>

datatype SectionKey = K_opening | K_core | K_followUps | K_closing | K_isQuestionnaire

datatype JsError = TypeError

text \<open>\<open>Array.prototype.findIndex\<close>: the first index at which the predicate holds, or -1.\<close>

fun findIndexFrom :: "nat \<Rightarrow> ('a \<Rightarrow> bool) \<Rightarrow> 'a list \<Rightarrow> int" where
  "findIndexFrom i P [] = - 1"
| "findIndexFrom i P (x # xs) = (if P x then int i else findIndexFrom (i + 1) P xs)"

definition findIndex :: "('a \<Rightarrow> bool) \<Rightarrow> 'a list \<Rightarrow> int" where
  "findIndex P xs = findIndexFrom 0 P xs"

text \<open>
  \<open>JSON.parse(JSON.stringify(prev))\<close> builds a new object tree with the same strings,
  arrays, booleans and present fields. Values of HOL have no identity, so the copy of a
  value is the value.
\<close>

definition jsonClone :: "GeneratedContent \<Rightarrow> GeneratedContent" where
  "jsonClone c = c"

text \<open>
  The two statements that both branches run on their list of questions:
  \<^verbatim>\<open>const qIndex = list.findIndex(q => q.id === id); if (qIndex > -1) list[qIndex].text = newText;\<close>
\<close>

definition patchQuestions :: "string \<Rightarrow> string \<Rightarrow> Question list \<Rightarrow> Question list" where
  "patchQuestions ident newText qs =
     (let qIndex = findIndex (\<lambda>q. qid q = ident) qs
      in if qIndex > - 1
         then qs[nat qIndex := (qs ! nat qIndex)\<lparr>qtext := newText\<rparr>]
         else qs)"

text \<open>
  In the second branch the key \<open>core\<close> selects the array of sections: a section has no
  \<open>id\<close>, the comparison with the string \<open>id\<close> is false for each, and nothing is written.
  The key \<open>isQuestionnaire\<close> selects a boolean or nothing, which has no \<open>findIndex\<close>.
  \<open>coreIndex\<close> is the array index the caller passes, a natural number.
\<close>

definition updateQuestionText ::
  "SectionKey \<Rightarrow> string \<Rightarrow> string \<Rightarrow> nat option \<Rightarrow> GeneratedContent option
     \<Rightarrow> JsError + GeneratedContent option" where
  "updateQuestionText section ident newText coreIndex prev =
     (case prev of
        None \<Rightarrow> Inr None
      | Some p \<Rightarrow>
          (let newContent = jsonClone p
           in if section = K_core \<and> coreIndex \<noteq> None
              then
                (let i = the coreIndex
                 in if i < length (core newContent)
                    then Inr (Some (newContent\<lparr>core := (core newContent)
                           [i := (core newContent ! i)
                              \<lparr>questions := patchQuestions ident newText
                                              (questions (core newContent ! i))\<rparr>]\<rparr>))
                    else Inl TypeError)
              else
                (case section of
                   K_opening \<Rightarrow>
                     Inr (Some (newContent\<lparr>opening :=
                            patchQuestions ident newText (opening newContent)\<rparr>))
                 | K_followUps \<Rightarrow>
                     Inr (Some (newContent\<lparr>followUps :=
                            patchQuestions ident newText (followUps newContent)\<rparr>))
                 | K_closing \<Rightarrow>
                     Inr (Some (newContent\<lparr>closing :=
                            patchQuestions ident newText (closing newContent)\<rparr>))
                 | K_core \<Rightarrow>
                     (let qIndex = findIndex (\<lambda>section. False) (core newContent)
                      in if qIndex > - 1 then Inl TypeError else Inr (Some newContent))
                 | K_isQuestionnaire \<Rightarrow> Inl TypeError)))"

section \<open>Descriptions of the outputs\<close>

text \<open>
  The definitions of this part are not translations of the source. They describe the
  outputs group by group and question by question; the lemmas below prove that the
  functions of the source compute what they describe.
\<close>

subsection \<open>The structure of the delimited output\<close>

text \<open>
  The lines that one call of the \<open>forEach\<close> callback pushes when the counters hold \<open>mc\<close>
  and \<open>te\<close>: the callback of the source, run on an empty array.
\<close>

definition questionLines :: "nat \<Rightarrow> nat \<Rightarrow> Question \<Rightarrow> string list" where
  "questionLines mc te q =
     lines (processQuestion \<lparr>mcCounter = mc, teCounter = te, lines = []\<rparr> q)"

text \<open>The two categories of the counters.\<close>

definition isChoice :: "Question \<Rightarrow> bool" where
  "isChoice q =
     (qtype q = Some SingleChoice \<or> qtype q = Some LikertScale \<or> qtype q = Some MultipleChoice)"

definition isFreeText :: "Question \<Rightarrow> bool" where
  "isFreeText q = (qtype q = Some FreeText)"

definition countMC :: "Question list \<Rightarrow> nat" where
  "countMC qs = length (filter isChoice qs)"

definition countTE :: "Question list \<Rightarrow> nat" where
  "countTE qs = length (filter isFreeText qs)"

definition optionsOf :: "Question \<Rightarrow> string list" where
  "optionsOf q = (case qoptions q of None \<Rightarrow> [] | Some os \<Rightarrow> os)"

text \<open>
  The groups of a document in the order in which \<open>generateQualtricsTxt\<close> visits them,
  each with its marker line.
\<close>

definition blocks :: "GeneratedContent \<Rightarrow> (string \<times> Question list) list" where
  "blocks content =
     [(''[[Block:Opening / Warm-up Questions]]'', opening content)] @
     map (\<lambda>section. (''[[Block:Core Questions: '' @ topic section @ '']]'', questions section))
         (core content) @
     [(''[[Block:Follow-ups / Probes]]'', followUps content),
      (''[[Block:Closing / Wrap-up]]'', closing content)]"

text \<open>
  The questions that are visited before question \<open>i\<close> of block \<open>k\<close>, and the lines that
  this question and the whole block \<open>k\<close> add to the output.
\<close>

definition questionsBefore :: "GeneratedContent \<Rightarrow> nat \<Rightarrow> nat \<Rightarrow> Question list" where
  "questionsBefore content k i =
     concat (map snd (take k (blocks content))) @ take i (snd (blocks content ! k))"

definition questionContribution :: "GeneratedContent \<Rightarrow> nat \<Rightarrow> nat \<Rightarrow> string list" where
  "questionContribution content k i =
     questionLines (1 + countMC (questionsBefore content k i))
                   (1 + countTE (questionsBefore content k i))
                   (snd (blocks content ! k) ! i)"

definition blockContribution :: "GeneratedContent \<Rightarrow> nat \<Rightarrow> string list" where
  "blockContribution content k =
     (if snd (blocks content ! k) = [] then []
      else [fst (blocks content ! k), ''''] @
           concat (map (questionContribution content k)
                       [0..<length (snd (blocks content ! k))]))"

text \<open>
  The four places where \<open>generateQualtricsTxt\<close> opens a block have one shape: test the
  length, push the marker and a blank line, process the questions.
\<close>

definition processBlock :: "GenState \<Rightarrow> string \<times> Question list \<Rightarrow> GenState" where
  "processBlock st b =
     (if length (snd b) > 0 then processQuestions (push '''' (push (fst b) st)) (snd b)
      else st)"

definition blockLinesFrom ::
  "nat \<Rightarrow> nat \<Rightarrow> (string \<times> Question list) list \<Rightarrow> nat \<Rightarrow> string list" where
  "blockLinesFrom mc te bs k =
     (if snd (bs ! k) = [] then []
      else [fst (bs ! k), ''''] @
           concat (map (\<lambda>i. questionLines
                               (mc + countMC (concat (map snd (take k bs)) @ take i (snd (bs ! k))))
                               (te + countTE (concat (map snd (take k bs)) @ take i (snd (bs ! k))))
                               (snd (bs ! k) ! i))
                       [0..<length (snd (bs ! k))]))"

text \<open>
  The lines of a text: its pieces between line feeds, as \<open>split('\n')\<close> gives them
  (\<open>splitFrom\<close> scans the text and keeps the line read so far, reversed). The lines of the
  text that \<open>join\<close> makes of an array are the lines of its elements, one element after
  the other (\<open>outputLines\<close>): an element that holds a line feed is more than one line of
  the output.
\<close>

fun splitFrom :: "string \<Rightarrow> string \<Rightarrow> string list" where
  "splitFrom acc [] = [rev acc]"
| "splitFrom acc (c # cs) =
     (if c = CHR 0x0A then rev acc # splitFrom [] cs else splitFrom (c # acc) cs)"

definition textLines :: "string \<Rightarrow> string list" where
  "textLines s = splitFrom [] s"

definition outputLines :: "string list \<Rightarrow> string list" where
  "outputLines ls = concat (map textLines ls)"

subsection \<open>The structure of the plain-text output\<close>

text \<open>The text of one question with its options, and of one group under its heading.\<close>

definition plainItem :: "Question \<Rightarrow> string" where
  "plainItem q =
     ''- '' @ qtext q @ nl @ concat (map (\<lambda>opt. ''  - '' @ opt @ nl) (optionsOf q))"

definition plainGroup :: "string \<Rightarrow> Question list \<Rightarrow> string" where
  "plainGroup label qs = ''## '' @ label @ nl @ concat (map plainItem qs)"

subsection \<open>The structure of the paginated layout\<close>

text \<open>
  What a call of \<open>pdf.text\<close> draws, without its position: font size, weight and lines.
\<close>

definition drawn :: "PdfState \<Rightarrow> (nat \<times> bool \<times> string list) list" where
  "drawn st = map (\<lambda>op. (opFontSize op, opBold op, opLines op)) (ops st)"

definition pdfItem :: "Splitter \<Rightarrow> rat \<Rightarrow> Question \<Rightarrow> (nat \<times> bool \<times> string list) list" where
  "pdfItem split w q =
     (11, False, split 11 False (''- '' @ qtext q) (w - 5)) #
     map (\<lambda>opt. (10, False, split 10 False (''    '' @ bullet @ '' '' @ opt) (w - 10)))
         (optionsOf q)"

definition pdfGroup ::
  "Splitter \<Rightarrow> rat \<Rightarrow> string \<times> Question list \<Rightarrow> (nat \<times> bool \<times> string list) list" where
  "pdfGroup split w g =
     (if snd g = [] then []
      else (14, True, split 14 True (fst g) w) # concat (map (pdfItem split w) (snd g)))"

definition pdfGroups :: "GeneratedContent \<Rightarrow> (string \<times> Question list) list" where
  "pdfGroups content =
     [(''Opening / Warm-up Questions'', opening content)] @
     map (\<lambda>section. (''Core Questions: '' @ topic section, questions section)) (core content) @
     [(''Follow-ups / Probes'', followUps content),
      (''Closing / Wrap-up'', closing content)]"

definition pdfTitle :: "GeneratedContent \<Rightarrow> string" where
  "pdfTitle content =
     (if isQuestionnaire content = Some True
      then ''Generated Questionnaire'' else ''Generated Script'')"

text \<open>
  The height that \<open>checkPageBreak\<close> is asked for before a text is drawn: 8 per line for
  the title (size 18), 7 per line and 8 for a heading (size 14), 5 per line and 2 for a
  question (size 11), 4.5 per line for an option (size 10).
\<close>

definition blockExtent :: "TextOp \<Rightarrow> rat" where
  "blockExtent op =
     (if opFontSize op = 18 then of_nat (length (opLines op)) * 8
      else if opFontSize op = 14 then of_nat (length (opLines op)) * 7 + 8
      else if opFontSize op = 11 then of_nat (length (opLines op)) * 5 + 2
      else of_nat (length (opLines op)) * (9 / 2))"

definition wellPlaced :: "rat \<Rightarrow> TextOp \<Rightarrow> bool" where
  "wellPlaced pageHeight op =
     ((opY op = margin \<or> opY op + blockExtent op \<le> pageHeight - margin)
      \<and> opY op \<le> pageHeight - margin)"

subsection \<open>The effect of a text edit\<close>

text \<open>
  The position of the first question of a list that has the identifier, and the list with
  the text of that question replaced (the list itself when no question has it).
\<close>

fun firstMatch :: "string \<Rightarrow> Question list \<Rightarrow> nat option" where
  "firstMatch ident [] = None"
| "firstMatch ident (q # qs) =
     (if qid q = ident then Some 0 else map_option Suc (firstMatch ident qs))"

definition replaceText :: "string \<Rightarrow> string \<Rightarrow> Question list \<Rightarrow> Question list" where
  "replaceText ident newText qs =
     (case firstMatch ident qs of
        None \<Rightarrow> qs
      | Some i \<Rightarrow> qs[i := (qs ! i)\<lparr>qtext := newText\<rparr>])"

section \<open>Example documents\<close>

definition likertQuestion :: Question where
  "likertQuestion =
     \<lparr>qid = ''q1'', qtext = ''Rate ease of use'', qtype = Some LikertScale,
      qoptions = Some [''Strongly Disagree'', ''Disagree'', ''Neutral'', ''Agree'',
                       ''Strongly Agree'']\<rparr>"

definition freeTextQuestion :: Question where
  "freeTextQuestion =
     \<lparr>qid = ''q2'', qtext = ''Describe your experience'', qtype = Some FreeText,
      qoptions = None\<rparr>"

definition multipleQuestion :: Question where
  "multipleQuestion =
     \<lparr>qid = ''q3'', qtext = ''Which features do you use'', qtype = Some MultipleChoice,
      qoptions = Some [''A'', ''B'', ''C'']\<rparr>"

definition untypedQuestion :: Question where
  "untypedQuestion =
     \<lparr>qid = ''o1'', qtext = ''Tell me about yourself.'', qtype = None, qoptions = None\<rparr>"

text \<open>
  A questionnaire with an opening that holds one question without a type, a core section
  with a scale question and a free-text question, a core section without questions, no
  follow-ups, and a closing with a multiple-choice question.
\<close>

definition exampleDoc :: GeneratedContent where
  "exampleDoc =
     \<lparr>opening = [untypedQuestion],
      core = [\<lparr>topic = ''Usability'', questions = [likertQuestion, freeTextQuestion]\<rparr>,
              \<lparr>topic = ''Pricing'', questions = []\<rparr>],
      followUps = [],
      closing = [multipleQuestion],
      isQuestionnaire = Some True\<rparr>"

text \<open>An opening with a free-text question and a closing with a multiple-choice question.\<close>

definition twoBlockDoc :: GeneratedContent where
  "twoBlockDoc =
     \<lparr>opening = [freeTextQuestion], core = [], followUps = [],
      closing = [multipleQuestion], isQuestionnaire = Some True\<rparr>"

text \<open>
  A single-choice question whose text holds a line feed followed by the marker text, and
  the multiple-choice question with the first line of that text and the same options.
\<close>

definition breakQuestion :: Question where
  "breakQuestion =
     \<lparr>qid = ''q4'', qtext = ''Pick one'' @ [CHR 0x0A] @ ''[[MultipleAnswer]]'',
      qtype = Some SingleChoice, qoptions = Some [''A'', ''B'']\<rparr>"

definition breakDoc :: GeneratedContent where
  "breakDoc =
     \<lparr>opening = [breakQuestion], core = [], followUps = [], closing = [],
      isQuestionnaire = Some True\<rparr>"

definition pickQuestion :: Question where
  "pickQuestion =
     \<lparr>qid = ''q4'', qtext = ''Pick one'', qtype = Some MultipleChoice,
      qoptions = Some [''A'', ''B'']\<rparr>"

definition pickDoc :: GeneratedContent where
  "pickDoc =
     \<lparr>opening = [pickQuestion], core = [], followUps = [], closing = [],
      isQuestionnaire = Some True\<rparr>"

text \<open>
  An interview script without follow-ups, and a document whose only question is a
  free-text question that carries options.
\<close>

definition interviewDoc :: GeneratedContent where
  "interviewDoc =
     \<lparr>opening = [\<lparr>qid = ''o1'', qtext = ''Tell me about yourself.'', qtype = None,
                   qoptions = None\<rparr>],
      core = [\<lparr>topic = ''Pain Points'',
               questions = [\<lparr>qid = ''c1'', qtext = ''What frustrates you?'',
                              qtype = Some FreeText, qoptions = None\<rparr>]\<rparr>],
      followUps = [],
      closing = [\<lparr>qid = ''z1'', qtext = ''Any final thoughts?'', qtype = None,
                   qoptions = None\<rparr>],
      isQuestionnaire = Some False\<rparr>"

definition optionedFreeText :: Question where
  "optionedFreeText =
     \<lparr>qid = ''f1'', qtext = ''Anything else'', qtype = Some FreeText,
      qoptions = Some [''Yes'', ''No'']\<rparr>"

definition optionedFreeTextDoc :: GeneratedContent where
  "optionedFreeTextDoc =
     \<lparr>opening = [optionedFreeText], core = [], followUps = [], closing = [],
      isQuestionnaire = None\<rparr>"

text \<open>A splitter for the examples: one line per text, whatever the width.\<close>

definition oneLine :: Splitter where
  "oneLine pt weight s w = [s]"

section \<open>Lemmas about the delimited serializer\<close>

subsection \<open>One question\<close>

lemma lines_push [simp]: "lines (push l st) = lines st @ [l]"
  by (simp add: push_def)

lemma mcCounter_push [simp]: "mcCounter (push l st) = mcCounter st"
  by (simp add: push_def)

lemma teCounter_push [simp]: "teCounter (push l st) = teCounter st"
  by (simp add: push_def)

lemma foldl_push:
  "foldl (\<lambda>s opt. push opt s) st xs = st\<lparr>lines := lines st @ xs\<rparr>"
  by (induction xs arbitrary: st) (simp_all add: push_def)

lemma lines_pushOptions [simp]:
  "lines (pushOptions os st) = lines st @ (case os of None \<Rightarrow> [] | Some xs \<Rightarrow> xs)"
  by (simp add: pushOptions_def foldl_push split: option.splits)

lemma mcCounter_pushOptions [simp]: "mcCounter (pushOptions os st) = mcCounter st"
  by (simp add: pushOptions_def foldl_push split: option.splits)

lemma teCounter_pushOptions [simp]: "teCounter (pushOptions os st) = teCounter st"
  by (simp add: pushOptions_def foldl_push split: option.splits)

lemma questionLines_None: "qtype q = None \<Longrightarrow> questionLines mc te q = []"
  by (simp add: questionLines_def processQuestion_def)

lemma questionLines_FreeText:
  "qtype q = Some FreeText \<Longrightarrow>
     questionLines mc te q = [''TE'' @ decimal te @ ''. '' @ qtext q, '''']"
  by (simp add: questionLines_def processQuestion_def)

lemma questionLines_SingleChoice:
  "qtype q = Some SingleChoice \<Longrightarrow>
     questionLines mc te q =
       [''MC'' @ decimal mc @ ''. '' @ qtext q, ''''] @ optionsOf q @ ['''']"
  by (simp add: questionLines_def processQuestion_def optionsOf_def Let_def)

lemma questionLines_LikertScale:
  "qtype q = Some LikertScale \<Longrightarrow>
     questionLines mc te q =
       [''MC'' @ decimal mc @ ''. '' @ qtext q, ''''] @ optionsOf q @ ['''']"
  by (simp add: questionLines_def processQuestion_def optionsOf_def Let_def)

lemma questionLines_MultipleChoice:
  "qtype q = Some MultipleChoice \<Longrightarrow>
     questionLines mc te q =
       [''MC'' @ decimal mc @ ''. '' @ qtext q, ''[[MultipleAnswer]]'', ''''] @
       optionsOf q @ ['''']"
  by (simp add: questionLines_def processQuestion_def optionsOf_def Let_def)

lemma lines_processQuestion:
  "lines (processQuestion st q) = lines st @ questionLines (mcCounter st) (teCounter st) q"
  by (simp add: questionLines_def processQuestion_def Let_def
           split: option.splits QuestionType.splits)

lemma mcCounter_processQuestion:
  "mcCounter (processQuestion st q) = mcCounter st + (if isChoice q then 1 else 0)"
  by (simp add: processQuestion_def isChoice_def Let_def
           split: option.splits QuestionType.splits)

lemma teCounter_processQuestion:
  "teCounter (processQuestion st q) = teCounter st + (if isFreeText q then 1 else 0)"
  by (simp add: processQuestion_def isFreeText_def Let_def
           split: option.splits QuestionType.splits)

subsection \<open>A list of questions\<close>

lemma mcCounter_foldl:
  "mcCounter (foldl processQuestion st qs) = mcCounter st + countMC qs"
  by (induction qs arbitrary: st) (simp_all add: countMC_def mcCounter_processQuestion)

lemma teCounter_foldl:
  "teCounter (foldl processQuestion st qs) = teCounter st + countTE qs"
  by (induction qs arbitrary: st) (simp_all add: countTE_def teCounter_processQuestion)

lemma lines_foldl:
  "lines (foldl processQuestion st qs) =
     lines st @ concat (map (\<lambda>i. questionLines (mcCounter st + countMC (take i qs))
                                               (teCounter st + countTE (take i qs)) (qs ! i))
                            [0..<length qs])"
proof (induction qs rule: rev_induct)
  case Nil
  show ?case by simp
next
  case (snoc q qs)
  let ?F = "\<lambda>xs i. questionLines (mcCounter st + countMC (take i xs))
                        (teCounter st + countTE (take i xs)) (xs ! i)"
  have same: "map (?F (qs @ [q])) [0..<length qs] = map (?F qs) [0..<length qs]"
    by (rule map_cong) (simp_all add: nth_append)
  have "lines (foldl processQuestion st (qs @ [q])) =
          lines (foldl processQuestion st qs) @
          questionLines (mcCounter st + countMC qs) (teCounter st + countTE qs) q"
    by (simp add: lines_processQuestion mcCounter_foldl teCounter_foldl)
  also have "\<dots> = lines st @ concat (map (?F qs) [0..<length qs]) @ ?F (qs @ [q]) (length qs)"
    by (simp add: snoc.IH)
  also have "\<dots> = lines st @ concat (map (?F (qs @ [q])) [0..<length qs]) @
                    ?F (qs @ [q]) (length qs)"
    by (simp only: same)
  also have "\<dots> = lines st @ concat (map (?F (qs @ [q])) [0..<length (qs @ [q])])"
    by simp
  finally show ?case .
qed

lemma mcCounter_processQuestions:
  "mcCounter (processQuestions st qs) = mcCounter st + countMC qs"
  by (simp add: processQuestions_def mcCounter_foldl countMC_def)

lemma teCounter_processQuestions:
  "teCounter (processQuestions st qs) = teCounter st + countTE qs"
  by (simp add: processQuestions_def teCounter_foldl countTE_def)

lemma lines_processQuestions:
  "lines (processQuestions st qs) =
     lines st @ concat (map (\<lambda>i. questionLines (mcCounter st + countMC (take i qs))
                                               (teCounter st + countTE (take i qs)) (qs ! i))
                            [0..<length qs])"
  by (simp add: processQuestions_def lines_foldl)

subsection \<open>The whole document\<close>

lemma countMC_append: "countMC (xs @ ys) = countMC xs + countMC ys"
  by (simp add: countMC_def)

lemma countTE_append: "countTE (xs @ ys) = countTE xs + countTE ys"
  by (simp add: countTE_def)

lemma countMC_Nil [simp]: "countMC [] = 0"
  by (simp add: countMC_def)

lemma countTE_Nil [simp]: "countTE [] = 0"
  by (simp add: countTE_def)

lemma processCoreSection_processBlock:
  "processCoreSection st section =
     processBlock st (''[[Block:Core Questions: '' @ topic section @ '']]'', questions section)"
  by (simp add: processCoreSection_def processBlock_def)

lemma foldl_processCoreSection:
  "foldl processCoreSection st secs =
     foldl processBlock st
       (map (\<lambda>section. (''[[Block:Core Questions: '' @ topic section @ '']]'',
                          questions section)) secs)"
  by (induction secs arbitrary: st) (simp_all add: processCoreSection_processBlock)

lemma qualtricsLines_foldl:
  "qualtricsLines content =
     lines (foldl processBlock \<lparr>mcCounter = 1, teCounter = 1, lines = []\<rparr> (blocks content))"
  by (simp add: qualtricsLines_def blocks_def Let_def foldl_processCoreSection processBlock_def)

lemma mcCounter_processBlock:
  "mcCounter (processBlock st b) = mcCounter st + countMC (snd b)"
  by (simp add: processBlock_def mcCounter_processQuestions)

lemma teCounter_processBlock:
  "teCounter (processBlock st b) = teCounter st + countTE (snd b)"
  by (simp add: processBlock_def teCounter_processQuestions)

lemma mcCounter_foldl_processBlock:
  "mcCounter (foldl processBlock st bs) = mcCounter st + countMC (concat (map snd bs))"
  by (induction bs arbitrary: st) (simp_all add: mcCounter_processBlock countMC_append)

lemma teCounter_foldl_processBlock:
  "teCounter (foldl processBlock st bs) = teCounter st + countTE (concat (map snd bs))"
  by (induction bs arbitrary: st) (simp_all add: teCounter_processBlock countTE_append)

lemma lines_processBlock:
  "lines (processBlock st b) =
     lines st @
     (if snd b = [] then []
      else [fst b, ''''] @
           concat (map (\<lambda>i. questionLines (mcCounter st + countMC (take i (snd b)))
                                           (teCounter st + countTE (take i (snd b))) (snd b ! i))
                       [0..<length (snd b)]))"
  by (simp add: processBlock_def lines_processQuestions)

lemma blockLinesFrom_butlast:
  "k < length bs \<Longrightarrow> blockLinesFrom mc te (bs @ [b]) k = blockLinesFrom mc te bs k"
  by (simp add: blockLinesFrom_def nth_append)

lemma blockLinesFrom_last:
  "blockLinesFrom mc te (bs @ [b]) (length bs) =
     (if snd b = [] then []
      else [fst b, ''''] @
           concat (map (\<lambda>i. questionLines
                               (mc + countMC (concat (map snd bs)) + countMC (take i (snd b)))
                               (te + countTE (concat (map snd bs)) + countTE (take i (snd b)))
                               (snd b ! i))
                       [0..<length (snd b)]))"
  by (simp add: blockLinesFrom_def countMC_append countTE_append add.assoc)

lemma lines_foldl_processBlock:
  "lines (foldl processBlock st bs) =
     lines st @
     concat (map (blockLinesFrom (mcCounter st) (teCounter st) bs) [0..<length bs])"
proof (induction bs rule: rev_induct)
  case Nil
  show ?case by simp
next
  case (snoc b bs)
  let ?mc = "mcCounter st" and ?te = "teCounter st"
  have same: "map (blockLinesFrom ?mc ?te (bs @ [b])) [0..<length bs] =
              map (blockLinesFrom ?mc ?te bs) [0..<length bs]"
    by (rule map_cong) (simp_all add: blockLinesFrom_butlast)
  have "lines (foldl processBlock st (bs @ [b])) =
          lines (foldl processBlock st bs) @ blockLinesFrom ?mc ?te (bs @ [b]) (length bs)"
    by (simp only: foldl_append foldl.simps lines_processBlock blockLinesFrom_last
          mcCounter_foldl_processBlock teCounter_foldl_processBlock)
  also have "\<dots> = lines st @ concat (map (blockLinesFrom ?mc ?te bs) [0..<length bs]) @
                    blockLinesFrom ?mc ?te (bs @ [b]) (length bs)"
    by (simp add: snoc.IH)
  also have "\<dots> = lines st @ concat (map (blockLinesFrom ?mc ?te (bs @ [b])) [0..<length bs]) @
                    blockLinesFrom ?mc ?te (bs @ [b]) (length bs)"
    by (simp only: same)
  also have "\<dots> = lines st @
                    concat (map (blockLinesFrom ?mc ?te (bs @ [b])) [0..<length (bs @ [b])])"
    by simp
  finally show ?case .
qed

lemma blockContribution_blockLinesFrom:
  "blockContribution content k = blockLinesFrom 1 1 (blocks content) k"
proof -
  have "questionContribution content k =
          (\<lambda>i. questionLines
                 (1 + countMC (concat (map snd (take k (blocks content))) @
                               take i (snd (blocks content ! k))))
                 (1 + countTE (concat (map snd (take k (blocks content))) @
                               take i (snd (blocks content ! k))))
                 (snd (blocks content ! k) ! i))"
    by (rule ext) (simp add: questionContribution_def questionsBefore_def)
  then show ?thesis
    by (simp only: blockContribution_def blockLinesFrom_def)
qed

lemma qualtricsLines_blocks:
  "qualtricsLines content =
     concat (map (blockContribution content) [0..<length (blocks content)])"
proof -
  have "blockContribution content = blockLinesFrom 1 1 (blocks content)"
    by (rule ext) (rule blockContribution_blockLinesFrom)
  then show ?thesis
    by (simp add: qualtricsLines_foldl lines_foldl_processBlock)
qed

lemma decimal_1: "decimal (Suc 0) = ''1''"
  by (simp add: decimal.simps digit_def)

lemma decimal_2: "decimal (Suc (Suc 0)) = ''2''"
  by (simp add: decimal.simps digit_def)

subsection \<open>The lines of the returned text\<close>

lemma splitFrom_acc:
  "splitFrom acc s = (rev acc @ hd (splitFrom [] s)) # tl (splitFrom [] s)"
proof (induction s arbitrary: acc)
  case Nil
  show ?case by simp
next
  case (Cons c cs)
  show ?case
  proof (cases "c = CHR 0x0A")
    case True
    then show ?thesis by simp
  next
    case False
    have "splitFrom (c # acc) cs = (rev (c # acc) @ hd (splitFrom [] cs)) # tl (splitFrom [] cs)"
      by (rule Cons.IH)
    moreover have "splitFrom [c] cs = (rev [c] @ hd (splitFrom [] cs)) # tl (splitFrom [] cs)"
      by (rule Cons.IH)
    ultimately show ?thesis
      using False by simp
  qed
qed

lemma textLines_Nil [simp]: "textLines [] = [[]]"
  by (simp add: textLines_def)

lemma textLines_Cons [simp]:
  "textLines (c # cs) =
     (if c = CHR 0x0A then [] # textLines cs
      else (c # hd (textLines cs)) # tl (textLines cs))"
  using splitFrom_acc [of "[c]" cs] by (simp add: textLines_def)

lemma textLines_not_Nil [simp]: "textLines s \<noteq> []"
  by (cases s) simp_all

lemma textLines_no_break: "CHR 0x0A \<notin> set s \<Longrightarrow> textLines s = [s]"
  by (induction s) auto

lemma textLines_prefix:
  "CHR 0x0A \<notin> set p \<Longrightarrow> textLines (p @ t) = (p @ hd (textLines t)) # tl (textLines t)"
  by (induction p) auto

lemma textLines_append_break:
  "textLines (a @ CHR 0x0A # b) = textLines a @ textLines b"
  by (induction a) simp_all

lemma textLines_joinWith:
  "xs \<noteq> [] \<Longrightarrow> textLines (joinWith [CHR 0x0A] xs) = outputLines xs"
proof (induction "[CHR 0x0A]" xs rule: joinWith.induct)
  case 1
  then show ?case by simp
next
  case (2 x)
  show ?case by (simp add: outputLines_def)
next
  case (3 x y ys)
  have "textLines (joinWith [CHR 0x0A] (x # y # ys)) =
          textLines x @ textLines (joinWith [CHR 0x0A] (y # ys))"
    by (simp add: textLines_append_break)
  with 3 show ?case
    by (simp add: outputLines_def)
qed

lemma outputLines_append: "outputLines (xs @ ys) = outputLines xs @ outputLines ys"
  by (simp add: outputLines_def)

lemma outputLines_concat: "outputLines (concat xss) = concat (map outputLines xss)"
  by (induction xss) (simp_all add: outputLines_def)

lemma outputLines_Cons: "outputLines (x # xs) = textLines x @ outputLines xs"
  by (simp add: outputLines_def)

lemma outputLines_Nil: "outputLines [] = []"
  by (simp add: outputLines_def)

lemma digit_no_break: "k < 10 \<Longrightarrow> digit k \<noteq> CHR 0x0A"
proof -
  assume "k < 10"
  then have "digit k \<in> set ''0123456789''"
    unfolding digit_def by (intro nth_mem) simp
  then show ?thesis by auto
qed

lemma decimal_no_break: "CHR 0x0A \<notin> set (decimal n)"
proof (induction n rule: decimal.induct)
  case (1 n)
  show ?case
  proof (cases "n < 10")
    case True
    then show ?thesis
      using digit_no_break [of n] by (subst decimal.simps) auto
  next
    case False
    have "digit (n mod 10) \<noteq> CHR 0x0A"
      by (rule digit_no_break) simp
    with False 1 show ?thesis
      by (subst decimal.simps) auto
  qed
qed

lemma textLines_header:
  "textLines (''MC'' @ decimal n @ ''. '' @ t) =
     (''MC'' @ decimal n @ ''. '' @ hd (textLines t)) # tl (textLines t)"
proof -
  have "CHR 0x0A \<notin> set (''MC'' @ decimal n @ ''. '')"
    using decimal_no_break [of n] by simp
  from textLines_prefix [OF this, of t] show ?thesis
    by simp
qed

lemma marker_in_header:
  "''[[MultipleAnswer]]'' \<in> set (textLines (''MC'' @ decimal n @ ''. '' @ t)) \<longleftrightarrow>
   ''[[MultipleAnswer]]'' \<in> set (tl (textLines t))"
  by (simp only: textLines_header) simp

lemma textLines_blank: "textLines [] = [[]]"
  by simp

lemma textLines_marker: "textLines ''[[MultipleAnswer]]'' = [''[[MultipleAnswer]]'']"
  by (rule textLines_no_break) simp

section \<open>Lemmas about the plain-text renderer\<close>

lemma foldl_append_each:
  "foldl (\<lambda>t x. t @ f x) acc xs = acc @ concat (map f xs)"
  by (induction xs arbitrary: acc) simp_all

lemma plainQuestion_plainItem: "plainQuestion acc q = acc @ plainItem q"
  by (simp add: plainQuestion_def plainItem_def optionsOf_def foldl_append_each Let_def
        split: option.splits)

lemma foldl_plainQuestion:
  "foldl plainQuestion acc qs = acc @ concat (map plainItem qs)"
  by (induction qs arbitrary: acc) (simp_all add: plainQuestion_plainItem)

lemma plainCoreSection_plainGroup:
  "plainCoreSection acc section =
     acc @ plainGroup (''Core Questions: '' @ topic section) (questions section) @ nl"
  by (simp add: plainCoreSection_def plainGroup_def foldl_plainQuestion Let_def)

lemma foldl_plainCoreSection:
  "foldl plainCoreSection acc secs =
     acc @ concat (map (\<lambda>section.
              plainGroup (''Core Questions: '' @ topic section) (questions section) @ nl) secs)"
  by (induction secs arbitrary: acc) (simp_all add: plainCoreSection_plainGroup)

lemma formatContentAsText_groups:
  "formatContentAsText (Some content) =
     plainGroup ''Opening / Warm-up Questions'' (opening content) @ nl @
     concat (map (\<lambda>section.
               plainGroup (''Core Questions: '' @ topic section) (questions section) @ nl)
             (core content)) @
     plainGroup ''Follow-ups / Probes'' (followUps content) @ nl @
     plainGroup ''Closing / Wrap-up'' (closing content)"
  by (simp add: formatContentAsText_def Let_def foldl_plainQuestion foldl_plainCoreSection
        plainGroup_def)

section \<open>Lemmas about the paginated layout\<close>

subsection \<open>What is drawn, in which order\<close>

lemma checkPageBreak_font [simp]:
  "fontSize (checkPageBreak h n st) = fontSize st"
  "bold (checkPageBreak h n st) = bold st"
  "ops (checkPageBreak h n st) = ops st"
  by (simp_all add: checkPageBreak_def)

lemma advance_fields [simp]:
  "fontSize (advance h st) = fontSize st"
  "bold (advance h st) = bold st"
  "ops (advance h st) = ops st"
  "page (advance h st) = page st"
  "cursorY (advance h st) = cursorY st + h"
  by (simp_all add: advance_def)

lemma setFont_fields [simp]:
  "fontSize (setFontSize n st) = n"
  "bold (setFontSize n st) = bold st"
  "ops (setFontSize n st) = ops st"
  "cursorY (setFontSize n st) = cursorY st"
  "page (setFontSize n st) = page st"
  "fontSize (setFontBold b st) = fontSize st"
  "bold (setFontBold b st) = b"
  "ops (setFontBold b st) = ops st"
  "cursorY (setFontBold b st) = cursorY st"
  "page (setFontBold b st) = page st"
  by (simp_all add: setFontSize_def setFontBold_def)

lemma pdfText_fields [simp]:
  "fontSize (pdfText ls x c st) = fontSize st"
  "bold (pdfText ls x c st) = bold st"
  "cursorY (pdfText ls x c st) = cursorY st"
  "page (pdfText ls x c st) = page st"
  "ops (pdfText ls x c st) =
     ops st @ [\<lparr>opPage = page st, opFontSize = fontSize st, opBold = bold st, opLines = ls,
                opX = x, opY = cursorY st, opCentered = c\<rparr>]"
  by (simp_all add: pdfText_def)

lemma drawn_append_op:
  "ops st' = ops st @ [op] \<Longrightarrow>
     drawn st' = drawn st @ [(opFontSize op, opBold op, opLines op)]"
  by (simp add: drawn_def)

lemma addOption_font [simp]:
  "fontSize (addOption split h w st opt) = fontSize st"
  "bold (addOption split h w st opt) = bold st"
  by (simp_all add: addOption_def Let_def)

lemma drawn_addOption:
  "drawn (addOption split h w st opt) =
     drawn st @
     [(fontSize st, bold st,
       split (fontSize st) (bold st) (''    '' @ bullet @ '' '' @ opt) (w - 10))]"
  by (simp add: addOption_def Let_def drawn_def)

lemma foldl_addOption_font [simp]:
  "fontSize (foldl (addOption split h w) st os) = fontSize st"
  "bold (foldl (addOption split h w) st os) = bold st"
  by (induction os arbitrary: st) simp_all

lemma drawn_foldl_addOption:
  "drawn (foldl (addOption split h w) st os) =
     drawn st @
     map (\<lambda>opt. (fontSize st, bold st,
                  split (fontSize st) (bold st) (''    '' @ bullet @ '' '' @ opt) (w - 10))) os"
  by (induction os arbitrary: st) (simp_all add: drawn_addOption)

lemma drawn_advance [simp]: "drawn (advance h st) = drawn st"
  by (simp add: drawn_def)

lemma drawn_addQuestion:
  "drawn (addQuestion split h w st q) = drawn st @ pdfItem split w q"
  by (cases "qoptions q")
     (simp_all add: addQuestion_def Let_def pdfItem_def optionsOf_def drawn_foldl_addOption,
      simp_all add: drawn_def)

lemma drawn_foldl_addQuestion:
  "drawn (foldl (addQuestion split h w) st qs) =
     drawn st @ concat (map (pdfItem split w) qs)"
  by (induction qs arbitrary: st) (simp_all add: drawn_addQuestion)

lemma drawn_addSection:
  "drawn (addSection split h w title qs st) = drawn st @ pdfGroup split w (title, qs)"
proof (cases "qs = []")
  case True
  then show ?thesis by (simp add: addSection_def pdfGroup_def)
next
  case False
  then show ?thesis
    by (simp add: addSection_def pdfGroup_def Let_def drawn_foldl_addQuestion)
       (simp add: drawn_def)
qed

lemma drawn_foldl_addSection:
  "drawn (foldl (\<lambda>st section. addSection split h w (label section) (questions section) st)
                st secs) =
     drawn st @
     concat (map (\<lambda>section. pdfGroup split w (label section, questions section)) secs)"
  by (induction secs arbitrary: st) (simp_all add: drawn_addSection)

lemma drawn_handleExportPDF:
  "\<exists>st. handleExportPDF split pageWidth pageHeight (Some content) = Some st \<and>
        drawn st =
          (18, True, split 18 True (pdfTitle content) (pageWidth - 30)) #
          concat (map (pdfGroup split (pageWidth - 30)) (pdfGroups content))"
  by (simp add: handleExportPDF_def Let_def drawn_addSection drawn_foldl_addSection
        pdfGroups_def pdfTitle_def margin_def comp_def)
     (simp add: drawn_def)

subsection \<open>Where it is drawn\<close>

lemma checkPageBreak_cursor:
  assumes "margin \<le> pageHeight - margin"
  shows "cursorY (checkPageBreak pageHeight n st) = margin \<or>
         cursorY (checkPageBreak pageHeight n st) + n \<le> pageHeight - margin"
  by (simp add: checkPageBreak_def)

lemma checkPageBreak_below:
  assumes "margin \<le> pageHeight - margin" and "0 \<le> n"
  shows "cursorY (checkPageBreak pageHeight n st) \<le> pageHeight - margin"
  using assms checkPageBreak_cursor [OF assms(1), of n st] by auto

lemma wellPlaced_after_check:
  assumes "margin \<le> pageHeight - margin" and "0 \<le> n"
    and "opY op = cursorY (checkPageBreak pageHeight n st)" and "blockExtent op = n"
  shows "wellPlaced pageHeight op"
  using checkPageBreak_cursor [OF assms(1), of n st] checkPageBreak_below [OF assms(1,2), of st]
    assms(3,4)
  by (simp add: wellPlaced_def)

lemma placed_addOption:
  assumes "margin \<le> pageHeight - margin" and "fontSize st = 10"
    and "\<forall>op \<in> set (ops st). wellPlaced pageHeight op"
  shows "\<forall>op \<in> set (ops (addOption split pageHeight w st opt)). wellPlaced pageHeight op"
proof -
  let ?ls = "split (fontSize st) (bold st) (''    '' @ bullet @ '' '' @ opt) (w - 10)"
  let ?n = "of_nat (length ?ls) * (9 / 2) :: rat"
  let ?st1 = "checkPageBreak pageHeight ?n st"
  let ?op = "\<lparr>opPage = page ?st1, opFontSize = fontSize ?st1, opBold = bold ?st1,
              opLines = ?ls, opX = margin + 5, opY = cursorY ?st1, opCentered = False\<rparr>"
  have ops: "ops (addOption split pageHeight w st opt) = ops st @ [?op]"
    by (simp add: addOption_def Let_def)
  have "wellPlaced pageHeight ?op"
    by (rule wellPlaced_after_check [OF assms(1), of ?n _ st])
       (simp_all add: blockExtent_def assms(2))
  with assms(3) show ?thesis
    by (simp add: ops)
qed

lemma placed_foldl_addOption:
  assumes "margin \<le> pageHeight - margin" and "fontSize st = 10"
    and "\<forall>op \<in> set (ops st). wellPlaced pageHeight op"
  shows "\<forall>op \<in> set (ops (foldl (addOption split pageHeight w) st os)).
           wellPlaced pageHeight op"
  using assms(2,3)
proof (induction os arbitrary: st)
  case Nil
  then show ?case by simp
next
  case (Cons opt os)
  have size: "fontSize (addOption split pageHeight w st opt) = 10"
    using Cons.prems(1) by simp
  have placed: "\<forall>op \<in> set (ops (addOption split pageHeight w st opt)).
                  wellPlaced pageHeight op"
    by (rule placed_addOption [OF assms(1) Cons.prems])
  show ?case
    using Cons.IH [OF size placed] by simp
qed

lemma placed_addQuestion:
  assumes "margin \<le> pageHeight - margin"
    and "\<forall>op \<in> set (ops st). wellPlaced pageHeight op"
  shows "\<forall>op \<in> set (ops (addQuestion split pageHeight w st q)). wellPlaced pageHeight op"
proof -
  let ?st1 = "setFontBold False (setFontSize 11 st)"
  let ?ls = "split (fontSize ?st1) (bold ?st1) (''- '' @ qtext q) (w - 5)"
  let ?n = "of_nat (length ?ls) * 5 + 2 :: rat"
  let ?st2 = "checkPageBreak pageHeight ?n ?st1"
  let ?st3 = "pdfText ?ls (margin + 2) False ?st2"
  let ?st4 = "advance ?n ?st3"
  let ?op = "\<lparr>opPage = page ?st2, opFontSize = fontSize ?st2, opBold = bold ?st2,
              opLines = ?ls, opX = margin + 2, opY = cursorY ?st2, opCentered = False\<rparr>"
  have ops4: "ops ?st4 = ops st @ [?op]"
    by simp
  have "wellPlaced pageHeight ?op"
    by (rule wellPlaced_after_check [OF assms(1), of ?n _ ?st1])
       (simp_all add: blockExtent_def)
  with assms(2) have placed4: "\<forall>op \<in> set (ops ?st4). wellPlaced pageHeight op"
    by (simp add: ops4)
  have placed_options:
    "\<forall>op \<in> set (ops (foldl (addOption split pageHeight w) (setFontSize 10 ?st4) os)).
       wellPlaced pageHeight op" for os
    by (rule placed_foldl_addOption [OF assms(1)]) (use placed4 in simp_all)
  have result: "addQuestion split pageHeight w st q =
          (case qoptions q of
             None \<Rightarrow> ?st4
           | Some os \<Rightarrow>
               (if length os > 0
                then advance 2 (foldl (addOption split pageHeight w) (setFontSize 10 ?st4) os)
                else ?st4))"
    by (simp only: addQuestion_def Let_def)
  show ?thesis
  proof (cases "qoptions q")
    case None
    then show ?thesis
      using placed4 by (simp only: result option.case)
  next
    case (Some os)
    show ?thesis
    proof (cases "length os > 0")
      case True
      have "ops (addQuestion split pageHeight w st q) =
              ops (foldl (addOption split pageHeight w) (setFontSize 10 ?st4) os)"
        using Some True by (simp only: result option.case if_True advance_fields)
      then show ?thesis
        using placed_options [of os] by simp
    next
      case False
      then show ?thesis
        using placed4 Some by (simp only: result option.case if_False)
    qed
  qed
qed

lemma placed_foldl_addQuestion:
  assumes "margin \<le> pageHeight - margin"
    and "\<forall>op \<in> set (ops st). wellPlaced pageHeight op"
  shows "\<forall>op \<in> set (ops (foldl (addQuestion split pageHeight w) st qs)).
           wellPlaced pageHeight op"
  using assms(2)
proof (induction qs arbitrary: st)
  case Nil
  then show ?case by simp
next
  case (Cons q qs)
  have "\<forall>op \<in> set (ops (addQuestion split pageHeight w st q)). wellPlaced pageHeight op"
    by (rule placed_addQuestion [OF assms(1) Cons.prems])
  from Cons.IH [OF this] show ?case
    by simp
qed

lemma placed_addSection:
  assumes "margin \<le> pageHeight - margin"
    and "\<forall>op \<in> set (ops st). wellPlaced pageHeight op"
  shows "\<forall>op \<in> set (ops (addSection split pageHeight w title qs st)).
           wellPlaced pageHeight op"
proof (cases "length qs = 0")
  case True
  then show ?thesis
    using assms(2) by (simp add: addSection_def)
next
  case False
  let ?st1 = "setFontBold True (setFontSize 14 st)"
  let ?ls = "split (fontSize ?st1) (bold ?st1) title w"
  let ?st2 = "checkPageBreak pageHeight (of_nat (length ?ls) * 7 + 8) ?st1"
  let ?st3 = "pdfText ?ls margin False ?st2"
  let ?st4 = "advance (of_nat (length ?ls) * 7 + 4) ?st3"
  let ?op = "\<lparr>opPage = page ?st2, opFontSize = fontSize ?st2, opBold = bold ?st2,
              opLines = ?ls, opX = margin, opY = cursorY ?st2, opCentered = False\<rparr>"
  have ops4: "ops ?st4 = ops st @ [?op]"
    by simp
  have "wellPlaced pageHeight ?op"
    by (rule wellPlaced_after_check [OF assms(1), of "of_nat (length ?ls) * 7 + 8" _ ?st1])
       (simp_all add: blockExtent_def)
  with assms(2) have placed4: "\<forall>op \<in> set (ops ?st4). wellPlaced pageHeight op"
    by (simp add: ops4)
  have "ops (addSection split pageHeight w title qs st) =
          ops (foldl (addQuestion split pageHeight w) ?st4 qs)"
    using False by (simp add: addSection_def Let_def)
  then show ?thesis
    using placed_foldl_addQuestion [OF assms(1) placed4, of split w qs] by simp
qed

lemma placed_foldl_addSection:
  assumes "margin \<le> pageHeight - margin"
    and "\<forall>op \<in> set (ops st). wellPlaced pageHeight op"
  shows "\<forall>op \<in> set (ops (foldl (\<lambda>st section. addSection split pageHeight w (label section)
                                                  (questions section) st) st secs)).
           wellPlaced pageHeight op"
  using assms(2)
proof (induction secs arbitrary: st)
  case Nil
  then show ?case by simp
next
  case (Cons s secs)
  have "\<forall>op \<in> set (ops (addSection split pageHeight w (label s) (questions s) st)).
          wellPlaced pageHeight op"
    by (rule placed_addSection [OF assms(1) Cons.prems])
  from Cons.IH [OF this] show ?case
    by simp
qed

lemma placed_handleExportPDF:
  assumes "margin \<le> pageHeight - margin"
  shows "\<exists>st. handleExportPDF split pageWidth pageHeight (Some content) = Some st \<and>
              (\<forall>op \<in> set (ops st). wellPlaced pageHeight op)"
proof -
  let ?w = "pageWidth - margin * 2"
  let ?st0 = "\<lparr>cursorY = margin, page = 1, fontSize = 16, bold = False, ops = []\<rparr>"
  let ?st1 = "setFontBold True (setFontSize 18 ?st0)"
  let ?ls = "split (fontSize ?st1) (bold ?st1)
               (if isQuestionnaire content = Some True
                then ''Generated Questionnaire'' else ''Generated Script'') ?w"
  let ?st2 = "checkPageBreak pageHeight (of_nat (length ?ls) * 8) ?st1"
  let ?st3 = "pdfText ?ls (pageWidth / 2) True ?st2"
  let ?st4 = "advance (of_nat (length ?ls) * 8 + 10) ?st3"
  let ?st5 = "addSection split pageHeight ?w ''Opening / Warm-up Questions''
                (opening content) ?st4"
  let ?st6 = "foldl (\<lambda>st section. addSection split pageHeight ?w
                       (''Core Questions: '' @ topic section) (questions section) st)
                ?st5 (core content)"
  let ?st7 = "addSection split pageHeight ?w ''Follow-ups / Probes'' (followUps content) ?st6"
  let ?st8 = "addSection split pageHeight ?w ''Closing / Wrap-up'' (closing content) ?st7"
  let ?op = "\<lparr>opPage = page ?st2, opFontSize = fontSize ?st2, opBold = bold ?st2,
              opLines = ?ls, opX = pageWidth / 2, opY = cursorY ?st2, opCentered = True\<rparr>"
  have result: "handleExportPDF split pageWidth pageHeight (Some content) = Some ?st8"
    by (simp add: handleExportPDF_def Let_def)
  have ops4: "ops ?st4 = [?op]"
    by simp
  have "wellPlaced pageHeight ?op"
    by (rule wellPlaced_after_check [OF assms(1), of "of_nat (length ?ls) * 8" _ ?st1])
       (simp_all add: blockExtent_def)
  then have placed4: "\<forall>op \<in> set (ops ?st4). wellPlaced pageHeight op"
    by (simp add: ops4)
  have placed5: "\<forall>op \<in> set (ops ?st5). wellPlaced pageHeight op"
    by (rule placed_addSection [OF assms(1) placed4])
  have placed6: "\<forall>op \<in> set (ops ?st6). wellPlaced pageHeight op"
    by (rule placed_foldl_addSection [OF assms(1) placed5])
  have placed7: "\<forall>op \<in> set (ops ?st7). wellPlaced pageHeight op"
    by (rule placed_addSection [OF assms(1) placed6])
  have placed8: "\<forall>op \<in> set (ops ?st8). wellPlaced pageHeight op"
    by (rule placed_addSection [OF assms(1) placed7])
  show ?thesis
    using result placed8 by blast
qed

section \<open>Lemmas about the text edit\<close>

lemma findIndexFrom_firstMatch:
  "findIndexFrom n (\<lambda>q. qid q = ident) qs =
     (case firstMatch ident qs of None \<Rightarrow> - 1 | Some i \<Rightarrow> int (n + i))"
  by (induction qs arbitrary: n) (auto split: option.splits)

lemma findIndex_firstMatch:
  "findIndex (\<lambda>q. qid q = ident) qs =
     (case firstMatch ident qs of None \<Rightarrow> - 1 | Some i \<Rightarrow> int i)"
  by (simp add: findIndex_def findIndexFrom_firstMatch split: option.splits)

lemma patchQuestions_replaceText:
  "patchQuestions ident newText qs = replaceText ident newText qs"
  by (simp add: patchQuestions_def replaceText_def findIndex_firstMatch Let_def
        split: option.splits)

lemma findIndexFrom_never: "findIndexFrom n (\<lambda>x. False) xs = - 1"
  by (induction xs arbitrary: n) simp_all

lemma firstMatch_Some:
  "firstMatch ident qs = Some i \<Longrightarrow>
     i < length qs \<and> qid (qs ! i) = ident \<and> (\<forall>j < i. qid (qs ! j) \<noteq> ident)"
proof (induction qs arbitrary: i)
  case Nil
  then show ?case by simp
next
  case (Cons q qs)
  show ?case
  proof (cases "qid q = ident")
    case True
    then show ?thesis using Cons.prems by simp
  next
    case False
    with Cons.prems obtain i' where i': "firstMatch ident qs = Some i'" "i = Suc i'"
      by auto
    from Cons.IH [OF i'(1)] False i'(2) show ?thesis
      by (auto simp: less_Suc_eq_0_disj)
  qed
qed

lemma firstMatch_None:
  "firstMatch ident qs = None \<Longrightarrow> \<forall>q \<in> set qs. qid q \<noteq> ident"
  by (induction qs) (auto split: if_splits)

lemma replaceText_frame:
  "length (replaceText ident newText qs) = length qs
   \<and> map qid (replaceText ident newText qs) = map qid qs
   \<and> map qtype (replaceText ident newText qs) = map qtype qs
   \<and> map qoptions (replaceText ident newText qs) = map qoptions qs"
  by (auto simp: replaceText_def map_update list_update_same_conv
           dest: firstMatch_Some split: option.splits)

section \<open>Claims about the delimited serializer\<close>

text \<open>
  Claim C3. The serializer keeps two independent counters. The output is the
  concatenation of the blocks' lines in order, the lines of a block are its marker, a
  blank line and the lines of its questions in order, and the question at position \<open>i\<close>
  of block \<open>k\<close> is processed with the \<open>MC\<close> counter at 1 plus the number of choice and
  scale questions processed before it and the \<open>TE\<close> counter at 1 plus the number of
  free-text questions processed before it. The first line of a choice or scale question is
  \<open>MC\<close>, that number, a dot, a space and the text; the first line of a free-text question
  is \<open>TE\<close>, its number, a dot, a space and the text. A question without a type emits no
  line and leaves both counters as they are.
\<close>

theorem counters_number_questions:
  "qualtricsLines content =
     concat (map (blockContribution content) [0..<length (blocks content)])
   \<and> (snd (blocks content ! k) \<noteq> [] \<longrightarrow>
        blockContribution content k =
          [fst (blocks content ! k), ''''] @
          concat (map (questionContribution content k)
                      [0..<length (snd (blocks content ! k))]))
   \<and> (isChoice (snd (blocks content ! kc) ! ic) \<longrightarrow>
        take 1 (questionContribution content kc ic) =
          [''MC'' @ decimal (1 + countMC (questionsBefore content kc ic)) @ ''. '' @
           qtext (snd (blocks content ! kc) ! ic)])
   \<and> (isFreeText (snd (blocks content ! kf) ! jf) \<longrightarrow>
        take 1 (questionContribution content kf jf) =
          [''TE'' @ decimal (1 + countTE (questionsBefore content kf jf)) @ ''. '' @
           qtext (snd (blocks content ! kf) ! jf)])
   \<and> (qtype (snd (blocks content ! kn) ! jn) = None \<longrightarrow>
        questionContribution content kn jn = [])
   \<and> (qtype q = None \<longrightarrow> processQuestion st q = st)"
proof -
  have choice: "take 1 (questionLines mc te x) = [''MC'' @ decimal mc @ ''. '' @ qtext x]"
    if "isChoice x" for mc te x
    using that
    by (auto simp: isChoice_def questionLines_SingleChoice questionLines_LikertScale
          questionLines_MultipleChoice)
  have free: "take 1 (questionLines mc te x) = [''TE'' @ decimal te @ ''. '' @ qtext x]"
    if "isFreeText x" for mc te x
    using that by (simp add: isFreeText_def questionLines_FreeText)
  show ?thesis
  proof (intro conjI impI)
    show "qualtricsLines content =
            concat (map (blockContribution content) [0..<length (blocks content)])"
      by (rule qualtricsLines_blocks)
  next
    assume "snd (blocks content ! k) \<noteq> []"
    then show "blockContribution content k =
                 [fst (blocks content ! k), ''''] @
                 concat (map (questionContribution content k)
                             [0..<length (snd (blocks content ! k))])"
      by (simp add: blockContribution_def)
  next
    assume "isChoice (snd (blocks content ! kc) ! ic)"
    then show "take 1 (questionContribution content kc ic) =
                 [''MC'' @ decimal (1 + countMC (questionsBefore content kc ic)) @ ''. '' @
                  qtext (snd (blocks content ! kc) ! ic)]"
      unfolding questionContribution_def by (rule choice)
  next
    assume "isFreeText (snd (blocks content ! kf) ! jf)"
    then show "take 1 (questionContribution content kf jf) =
                 [''TE'' @ decimal (1 + countTE (questionsBefore content kf jf)) @ ''. '' @
                  qtext (snd (blocks content ! kf) ! jf)]"
      unfolding questionContribution_def by (rule free)
  next
    assume "qtype (snd (blocks content ! kn) ! jn) = None"
    then show "questionContribution content kn jn = []"
      unfolding questionContribution_def by (rule questionLines_None)
  next
    assume "qtype q = None"
    then show "processQuestion st q = st"
      by (simp add: processQuestion_def)
  qed
qed

theorem counters_number_questions_witness:
  "snd (blocks exampleDoc ! 4) \<noteq> []
   \<and> isChoice (snd (blocks exampleDoc ! 4) ! 0)
   \<and> isFreeText (snd (blocks exampleDoc ! 1) ! 1)
   \<and> qtype (snd (blocks exampleDoc ! 0) ! 0) = None
   \<and> qtype untypedQuestion = None
   \<and> take 1 (questionContribution exampleDoc 4 0) = [''MC2. Which features do you use'']
   \<and> take 1 (questionContribution exampleDoc 1 1) = [''TE1. Describe your experience'']
   \<and> questionContribution exampleDoc 0 0 = []
   \<and> processQuestion \<lparr>mcCounter = 3, teCounter = 5, lines = [''x'']\<rparr> untypedQuestion =
       \<lparr>mcCounter = 3, teCounter = 5, lines = [''x'']\<rparr>"
proof -
  have before_mc: "countMC (questionsBefore exampleDoc 4 0) = 1"
    by code_simp
  have before_te: "countTE (questionsBefore exampleDoc (Suc 0) (Suc 0)) = 0"
    by code_simp
  have hyps:
    "snd (blocks exampleDoc ! 4) \<noteq> []"
    "isChoice (snd (blocks exampleDoc ! 4) ! 0)"
    "isFreeText (snd (blocks exampleDoc ! 1) ! 1)"
    "qtype (snd (blocks exampleDoc ! 0) ! 0) = None"
    "qtype untypedQuestion = None"
    by code_simp+
  have texts:
    "qtext (snd (blocks exampleDoc ! 4) ! 0) = ''Which features do you use''"
    "qtext (snd (blocks exampleDoc ! Suc 0) ! Suc 0) = ''Describe your experience''"
    by code_simp+
  show ?thesis
    using counters_number_questions
            [of exampleDoc 4 4 0 1 1 0 0 untypedQuestion
                "\<lparr>mcCounter = 3, teCounter = 5, lines = [''x'']\<rparr>"]
          hyps
    by (simp add: before_mc before_te texts decimal_1 decimal_2)
qed

text \<open>
  Claim C10. A group whose list of questions is not empty but holds only questions without
  a type still emits its marker line and the blank line after it, and nothing else: the
  block has a marker and no question line. A group emits no marker only when its list of
  questions is empty. For a core section this is the callback of the source itself;
  \<open>processQuestions\<close> leaves the state as it is when no question has a type.
\<close>

theorem untyped_block_keeps_marker:
  "qualtricsLines content =
     concat (map (blockContribution content) [0..<length (blocks content)])
   \<and> (snd (blocks content ! k) \<noteq> [] \<and> (\<forall>q \<in> set (snd (blocks content ! k)). qtype q = None)
        \<longrightarrow> blockContribution content k = [fst (blocks content ! k), ''''])
   \<and> (snd (blocks content ! j) \<noteq> []
        \<longrightarrow> take 2 (blockContribution content j) = [fst (blocks content ! j), ''''])
   \<and> (snd (blocks content ! e) = [] \<longrightarrow> blockContribution content e = [])
   \<and> ((\<forall>q \<in> set qs. qtype q = None) \<longrightarrow> processQuestions st qs = st)
   \<and> (qs' \<noteq> [] \<and> (\<forall>q \<in> set qs'. qtype q = None)
        \<longrightarrow> processCoreSection st' \<lparr>topic = t, questions = qs'\<rparr> =
            push '''' (push (''[[Block:Core Questions: '' @ t @ '']]'') st'))"
proof -
  have untyped: "foldl processQuestion s xs = s" if "\<forall>q \<in> set xs. qtype q = None" for s xs
    using that by (induction xs arbitrary: s) (simp_all add: processQuestion_def)
  have none: "concat (map (questionContribution content k)
                          [0..<length (snd (blocks content ! k))]) = []"
    if "\<forall>q \<in> set (snd (blocks content ! k)). qtype q = None"
    using that by (simp add: questionContribution_def questionLines_None)
  show ?thesis
  proof (intro conjI impI)
    show "qualtricsLines content =
            concat (map (blockContribution content) [0..<length (blocks content)])"
      by (rule qualtricsLines_blocks)
  next
    assume "snd (blocks content ! k) \<noteq> [] \<and>
            (\<forall>q \<in> set (snd (blocks content ! k)). qtype q = None)"
    then show "blockContribution content k = [fst (blocks content ! k), '''']"
      using none by (simp add: blockContribution_def)
  next
    assume "snd (blocks content ! j) \<noteq> []"
    then show "take 2 (blockContribution content j) = [fst (blocks content ! j), '''']"
      by (simp add: blockContribution_def)
  next
    assume "snd (blocks content ! e) = []"
    then show "blockContribution content e = []"
      by (simp add: blockContribution_def)
  next
    assume "\<forall>q \<in> set qs. qtype q = None"
    then show "processQuestions st qs = st"
      by (simp add: processQuestions_def untyped)
  next
    assume "qs' \<noteq> [] \<and> (\<forall>q \<in> set qs'. qtype q = None)"
    then show "processCoreSection st' \<lparr>topic = t, questions = qs'\<rparr> =
                 push '''' (push (''[[Block:Core Questions: '' @ t @ '']]'') st')"
      by (simp add: processCoreSection_def processQuestions_def untyped)
  qed
qed

theorem untyped_block_keeps_marker_witness:
  "snd (blocks exampleDoc ! 0) = [untypedQuestion]
   \<and> qtype untypedQuestion = None
   \<and> snd (blocks exampleDoc ! 4) \<noteq> []
   \<and> snd (blocks exampleDoc ! 3) = []
   \<and> blockContribution exampleDoc 0 = [''[[Block:Opening / Warm-up Questions]]'', '''']
   \<and> take 2 (blockContribution exampleDoc 4) = [''[[Block:Closing / Wrap-up]]'', '''']
   \<and> blockContribution exampleDoc 3 = []
   \<and> processQuestions \<lparr>mcCounter = 2, teCounter = 1, lines = [''x'']\<rparr>
         [untypedQuestion, untypedQuestion] =
       \<lparr>mcCounter = 2, teCounter = 1, lines = [''x'']\<rparr>
   \<and> lines (processCoreSection \<lparr>mcCounter = 2, teCounter = 1, lines = [''x'']\<rparr>
         \<lparr>topic = ''Habits'', questions = [untypedQuestion]\<rparr>) =
       [''x'', ''[[Block:Core Questions: Habits]]'', '''']"
proof -
  have hyps:
    "snd (blocks exampleDoc ! 0) \<noteq> [] \<and>
       (\<forall>q \<in> set (snd (blocks exampleDoc ! 0)). qtype q = None)"
    "snd (blocks exampleDoc ! 4) \<noteq> []"
    "snd (blocks exampleDoc ! 3) = []"
    "\<forall>q \<in> set [untypedQuestion, untypedQuestion]. qtype q = None"
    "[untypedQuestion] \<noteq> [] \<and> (\<forall>q \<in> set [untypedQuestion]. qtype q = None)"
    by code_simp+
  have shown:
    "snd (blocks exampleDoc ! 0) = [untypedQuestion]"
    "qtype untypedQuestion = None"
    by code_simp+
  have markers:
    "fst (blocks exampleDoc ! 0) = ''[[Block:Opening / Warm-up Questions]]''"
    "fst (blocks exampleDoc ! 4) = ''[[Block:Closing / Wrap-up]]''"
    by code_simp+
  show ?thesis
    using untyped_block_keeps_marker
            [of exampleDoc 0 4 3 "[untypedQuestion, untypedQuestion]"
                "\<lparr>mcCounter = 2, teCounter = 1, lines = [''x'']\<rparr>"
                "[untypedQuestion]" "\<lparr>mcCounter = 2, teCounter = 1, lines = [''x'']\<rparr>"
                "''Habits''"]
          hyps shown
    by (simp add: markers)
qed

text \<open>
  Claim C4, as stated, fails: the text of a question is copied verbatim into its \<open>MC\<close>
  entry and the entries are joined with line feeds. A single-choice question whose text
  is \<open>Pick one\<close>, a line feed and \<open>[[MultipleAnswer]]\<close> returns a text in which the line
  \<open>[[MultipleAnswer]]\<close> stands immediately after the line \<open>MC1. Pick one\<close>: the same text
  as the multiple-choice question \<open>Pick one\<close> with the same options.
\<close>

theorem single_choice_marker_counterexample:
  "qtype breakQuestion = Some SingleChoice
   \<and> opening breakDoc = [breakQuestion]
   \<and> textLines (generateQualtricsTxt breakDoc) =
       [''[[Block:Opening / Warm-up Questions]]'', '''',
        ''MC1. Pick one'', ''[[MultipleAnswer]]'', '''', ''A'', ''B'', '''']
   \<and> qtype pickQuestion = Some MultipleChoice
   \<and> opening pickDoc = [pickQuestion]
   \<and> generateQualtricsTxt breakDoc = generateQualtricsTxt pickDoc"
  by code_simp

text \<open>
  Claim C4, amended. The lines of the returned text are the lines of the blocks in
  order, and the lines of a block are the lines of its marker, a blank line and the lines
  of its questions in order. A question with type \<open>MultipleChoice\<close> yields the lines of
  its \<open>MC\<close> entry (\<open>MC\<close>, number, dot, space, text), immediately after them the line
  \<open>[[MultipleAnswer]]\<close>, then a blank line, the lines of its options and a blank line. For
  a question with type \<open>SingleChoice\<close> or \<open>LikertScale\<close> the serializer adds no such line:
  the question yields the lines of its \<open>MC\<close> entry, a blank line, the lines of its options
  and a blank line. Text and options are copied verbatim, so \<open>[[MultipleAnswer]]\<close> is
  among these lines exactly when it is a line of the text after its first line or a line
  of one of the options; when the text holds no line feed, the line immediately after the
  \<open>MC\<close> line is the blank line.
\<close>

theorem multiple_answer_marker:
  "(qualtricsLines content \<noteq> [] \<longrightarrow>
      textLines (generateQualtricsTxt content) =
        concat (map (\<lambda>k. outputLines (blockContribution content k))
                    [0..<length (blocks content)]))
   \<and> (snd (blocks content ! k) \<noteq> [] \<longrightarrow>
        outputLines (blockContribution content k) =
          textLines (fst (blocks content ! k)) @ [''''] @
          concat (map (\<lambda>i. outputLines (questionContribution content k i))
                      [0..<length (snd (blocks content ! k))]))
   \<and> (qtype (snd (blocks content ! km) ! im) = Some MultipleChoice \<longrightarrow>
        outputLines (questionContribution content km im) =
          textLines (''MC'' @ decimal (1 + countMC (questionsBefore content km im)) @ ''. '' @
                     qtext (snd (blocks content ! km) ! im)) @
          [''[[MultipleAnswer]]'', ''''] @
          outputLines (optionsOf (snd (blocks content ! km) ! im)) @ [''''])
   \<and> (qtype (snd (blocks content ! ks) ! js) = Some SingleChoice \<or>
      qtype (snd (blocks content ! ks) ! js) = Some LikertScale \<longrightarrow>
        outputLines (questionContribution content ks js) =
          textLines (''MC'' @ decimal (1 + countMC (questionsBefore content ks js)) @ ''. '' @
                     qtext (snd (blocks content ! ks) ! js)) @
          [''''] @
          outputLines (optionsOf (snd (blocks content ! ks) ! js)) @ ['''']
        \<and> (''[[MultipleAnswer]]'' \<in> set (outputLines (questionContribution content ks js)) \<longleftrightarrow>
            ''[[MultipleAnswer]]'' \<in> set (tl (textLines (qtext (snd (blocks content ! ks) ! js))))
            \<or> ''[[MultipleAnswer]]'' \<in>
                set (outputLines (optionsOf (snd (blocks content ! ks) ! js))))
        \<and> (CHR 0x0A \<notin> set (qtext (snd (blocks content ! ks) ! js)) \<longrightarrow>
            take 2 (outputLines (questionContribution content ks js)) =
              [''MC'' @ decimal (1 + countMC (questionsBefore content ks js)) @ ''. '' @
               qtext (snd (blocks content ! ks) ! js), '''']))"
proof (intro conjI impI)
  assume "qualtricsLines content \<noteq> []"
  then have "textLines (generateQualtricsTxt content) = outputLines (qualtricsLines content)"
    by (simp add: generateQualtricsTxt_def textLines_joinWith)
  also have "\<dots> = concat (map outputLines
                       (map (blockContribution content) [0..<length (blocks content)]))"
    by (simp only: qualtricsLines_blocks [of content] outputLines_concat)
  finally show "textLines (generateQualtricsTxt content) =
                  concat (map (\<lambda>k. outputLines (blockContribution content k))
                              [0..<length (blocks content)])"
    by (simp add: comp_def)
next
  assume nonempty: "snd (blocks content ! k) \<noteq> []"
  let ?n = "length (snd (blocks content ! k))"
  have "outputLines (blockContribution content k) =
          textLines (fst (blocks content ! k)) @ textLines [] @
          outputLines (concat (map (questionContribution content k) [0..<?n]))"
    using nonempty
    by (simp add: blockContribution_def outputLines_Cons)
  also have "outputLines (concat (map (questionContribution content k) [0..<?n])) =
               concat (map (\<lambda>i. outputLines (questionContribution content k i)) [0..<?n])"
    by (simp add: outputLines_concat comp_def)
  finally show "outputLines (blockContribution content k) =
                  textLines (fst (blocks content ! k)) @ [''''] @
                  concat (map (\<lambda>i. outputLines (questionContribution content k i)) [0..<?n])"
    by simp
next
  assume "qtype (snd (blocks content ! km) ! im) = Some MultipleChoice"
  then have "questionContribution content km im =
               [''MC'' @ decimal (1 + countMC (questionsBefore content km im)) @ ''. '' @
                  qtext (snd (blocks content ! km) ! im),
                ''[[MultipleAnswer]]'', ''''] @
               optionsOf (snd (blocks content ! km) ! im) @ ['''']"
    unfolding questionContribution_def by (rule questionLines_MultipleChoice)
  then show "outputLines (questionContribution content km im) =
               textLines (''MC'' @ decimal (1 + countMC (questionsBefore content km im)) @
                          ''. '' @ qtext (snd (blocks content ! km) ! im)) @
               [''[[MultipleAnswer]]'', ''''] @
               outputLines (optionsOf (snd (blocks content ! km) ! im)) @ ['''']"
    by (simp only: outputLines_append outputLines_Cons outputLines_Nil textLines_marker
          textLines_blank append_Cons append_Nil append_Nil2 append_assoc)
next
  let ?q = "snd (blocks content ! ks) ! js"
  let ?hdr = "''MC'' @ decimal (1 + countMC (questionsBefore content ks js)) @ ''. '' @ qtext ?q"
  assume "qtype ?q = Some SingleChoice \<or> qtype ?q = Some LikertScale"
  then have "questionContribution content ks js = [?hdr, ''''] @ optionsOf ?q @ ['''']"
    unfolding questionContribution_def
    by (auto simp: questionLines_SingleChoice questionLines_LikertScale)
  then show shape: "outputLines (questionContribution content ks js) =
                      textLines ?hdr @ [''''] @ outputLines (optionsOf ?q) @ ['''']"
    by (simp only: outputLines_append outputLines_Cons outputLines_Nil textLines_blank
          append_Cons append_Nil append_Nil2 append_assoc)
  show "''[[MultipleAnswer]]'' \<in> set (outputLines (questionContribution content ks js)) \<longleftrightarrow>
        ''[[MultipleAnswer]]'' \<in> set (tl (textLines (qtext ?q)))
        \<or> ''[[MultipleAnswer]]'' \<in> set (outputLines (optionsOf ?q))"
    using marker_in_header [of "1 + countMC (questionsBefore content ks js)" "qtext ?q"]
    by (simp only: shape set_append) simp
  assume "CHR 0x0A \<notin> set (qtext ?q)"
  then have "CHR 0x0A \<notin> set ?hdr"
    using decimal_no_break [of "1 + countMC (questionsBefore content ks js)"] by simp
  then have "textLines ?hdr = [?hdr]"
    by (rule textLines_no_break)
  then show "take 2 (outputLines (questionContribution content ks js)) = [?hdr, '''']"
    by (simp only: shape) simp
qed

theorem multiple_answer_marker_witness:
  "qualtricsLines exampleDoc \<noteq> []
   \<and> snd (blocks exampleDoc ! 4) \<noteq> []
   \<and> qtype (snd (blocks exampleDoc ! 4) ! 0) = Some MultipleChoice
   \<and> qtype (snd (blocks exampleDoc ! 1) ! 0) = Some LikertScale
   \<and> CHR 0x0A \<notin> set (qtext (snd (blocks exampleDoc ! 1) ! 0))
   \<and> textLines (generateQualtricsTxt exampleDoc) =
       [''[[Block:Opening / Warm-up Questions]]'', '''',
        ''[[Block:Core Questions: Usability]]'', '''',
        ''MC1. Rate ease of use'', '''',
        ''Strongly Disagree'', ''Disagree'', ''Neutral'', ''Agree'', ''Strongly Agree'', '''',
        ''TE1. Describe your experience'', '''',
        ''[[Block:Closing / Wrap-up]]'', '''',
        ''MC2. Which features do you use'', ''[[MultipleAnswer]]'', '''',
        ''A'', ''B'', ''C'', '''']
   \<and> outputLines (questionContribution exampleDoc 4 0) =
       [''MC2. Which features do you use'', ''[[MultipleAnswer]]'', '''',
        ''A'', ''B'', ''C'', '''']
   \<and> take 2 (outputLines (questionContribution exampleDoc 1 0)) =
       [''MC1. Rate ease of use'', '''']
   \<and> ''[[MultipleAnswer]]'' \<notin> set (outputLines (questionContribution exampleDoc 1 0))"
proof -
  have hyps:
    "qualtricsLines exampleDoc \<noteq> []"
    "snd (blocks exampleDoc ! 4) \<noteq> []"
    "qtype (snd (blocks exampleDoc ! 4) ! 0) = Some MultipleChoice"
    "qtype (snd (blocks exampleDoc ! 1) ! 0) = Some LikertScale"
    "CHR 0x0A \<notin> set (qtext (snd (blocks exampleDoc ! 1) ! 0))"
    by code_simp+
  have evaluated:
    "textLines (generateQualtricsTxt exampleDoc) =
       [''[[Block:Opening / Warm-up Questions]]'', '''',
        ''[[Block:Core Questions: Usability]]'', '''',
        ''MC1. Rate ease of use'', '''',
        ''Strongly Disagree'', ''Disagree'', ''Neutral'', ''Agree'', ''Strongly Agree'', '''',
        ''TE1. Describe your experience'', '''',
        ''[[Block:Closing / Wrap-up]]'', '''',
        ''MC2. Which features do you use'', ''[[MultipleAnswer]]'', '''',
        ''A'', ''B'', ''C'', '''']"
    "outputLines (questionContribution exampleDoc 4 0) =
       [''MC2. Which features do you use'', ''[[MultipleAnswer]]'', '''',
        ''A'', ''B'', ''C'', '''']"
    "take 2 (outputLines (questionContribution exampleDoc 1 0)) =
       [''MC1. Rate ease of use'', '''']"
    by code_simp+
  have absent:
    "''[[MultipleAnswer]]'' \<notin> set (tl (textLines (qtext (snd (blocks exampleDoc ! 1) ! 0))))"
    "''[[MultipleAnswer]]'' \<notin> set (outputLines (optionsOf (snd (blocks exampleDoc ! 1) ! 0)))"
    by code_simp+
  have likert: "qtype (snd (blocks exampleDoc ! 1) ! 0) = Some SingleChoice \<or>
                qtype (snd (blocks exampleDoc ! 1) ! 0) = Some LikertScale"
    using hyps(4) by simp
  have "''[[MultipleAnswer]]'' \<in> set (outputLines (questionContribution exampleDoc 1 0)) \<longleftrightarrow>
        ''[[MultipleAnswer]]'' \<in> set (tl (textLines (qtext (snd (blocks exampleDoc ! 1) ! 0))))
        \<or> ''[[MultipleAnswer]]'' \<in>
            set (outputLines (optionsOf (snd (blocks exampleDoc ! 1) ! 0)))"
    using multiple_answer_marker [where content = exampleDoc and k = 4 and km = 4 and im = 0
                                    and ks = 1 and js = 0]
          likert
    by blast
  with absent have none:
    "''[[MultipleAnswer]]'' \<notin> set (outputLines (questionContribution exampleDoc 1 0))"
    by blast
  show ?thesis
    by (intro conjI) (rule hyps evaluated none)+
qed

text \<open>
  Claim C2, as stated, fails: nothing is pushed after the questions of a block, so one
  blank line, not two, stands between the last question of the opening and the marker of
  the closing.
\<close>

theorem one_blank_line_before_marker_counterexample:
  "qualtricsLines twoBlockDoc =
     [''[[Block:Opening / Warm-up Questions]]'', '''',
      ''TE1. Describe your experience'', '''',
      ''[[Block:Closing / Wrap-up]]'', '''',
      ''MC1. Which features do you use'', ''[[MultipleAnswer]]'', '''',
      ''A'', ''B'', ''C'', '''']"
  by code_simp

text \<open>
  Claim C2, amended. The serializer appends exactly one blank line after the lines of
  every emitted question, whatever its type, and nothing after the questions of a block:
  the lines of a block are its marker, a blank line and the lines of its questions, and
  the lines of a question with a type are its own lines (the numbered line, for a
  multiple-choice question the marker, for a choice or scale question a blank line and
  the options) followed by one blank line. So the last emitted question of a block is
  separated from the following marker by that one blank line.
\<close>

theorem one_blank_line_after_question:
  "qualtricsLines content =
     concat (map (blockContribution content) [0..<length (blocks content)])
   \<and> (snd (blocks content ! k) \<noteq> [] \<longrightarrow>
        blockContribution content k =
          [fst (blocks content ! k), ''''] @
          concat (map (questionContribution content k)
                      [0..<length (snd (blocks content ! k))]))
   \<and> (qtype (snd (blocks content ! kf) ! jf) = Some FreeText \<longrightarrow>
        questionContribution content kf jf =
          [''TE'' @ decimal (1 + countTE (questionsBefore content kf jf)) @ ''. '' @
             qtext (snd (blocks content ! kf) ! jf)] @ [''''])
   \<and> (qtype (snd (blocks content ! ks) ! js) = Some SingleChoice \<or>
      qtype (snd (blocks content ! ks) ! js) = Some LikertScale \<longrightarrow>
        questionContribution content ks js =
          ([''MC'' @ decimal (1 + countMC (questionsBefore content ks js)) @ ''. '' @
              qtext (snd (blocks content ! ks) ! js), ''''] @
           optionsOf (snd (blocks content ! ks) ! js)) @ [''''])
   \<and> (qtype (snd (blocks content ! km) ! im) = Some MultipleChoice \<longrightarrow>
        questionContribution content km im =
          ([''MC'' @ decimal (1 + countMC (questionsBefore content km im)) @ ''. '' @
              qtext (snd (blocks content ! km) ! im), ''[[MultipleAnswer]]'', ''''] @
           optionsOf (snd (blocks content ! km) ! im)) @ [''''])"
proof (intro conjI impI)
  show "qualtricsLines content =
          concat (map (blockContribution content) [0..<length (blocks content)])"
    by (rule qualtricsLines_blocks)
next
  assume "snd (blocks content ! k) \<noteq> []"
  then show "blockContribution content k =
               [fst (blocks content ! k), ''''] @
               concat (map (questionContribution content k)
                           [0..<length (snd (blocks content ! k))])"
    by (simp add: blockContribution_def)
next
  assume "qtype (snd (blocks content ! kf) ! jf) = Some FreeText"
  then show "questionContribution content kf jf =
               [''TE'' @ decimal (1 + countTE (questionsBefore content kf jf)) @ ''. '' @
                  qtext (snd (blocks content ! kf) ! jf)] @ ['''']"
    unfolding questionContribution_def by (simp add: questionLines_FreeText)
next
  assume "qtype (snd (blocks content ! ks) ! js) = Some SingleChoice \<or>
          qtype (snd (blocks content ! ks) ! js) = Some LikertScale"
  then show "questionContribution content ks js =
               ([''MC'' @ decimal (1 + countMC (questionsBefore content ks js)) @ ''. '' @
                   qtext (snd (blocks content ! ks) ! js), ''''] @
                optionsOf (snd (blocks content ! ks) ! js)) @ ['''']"
    unfolding questionContribution_def
    by (auto simp: questionLines_SingleChoice questionLines_LikertScale)
next
  assume "qtype (snd (blocks content ! km) ! im) = Some MultipleChoice"
  then show "questionContribution content km im =
               ([''MC'' @ decimal (1 + countMC (questionsBefore content km im)) @ ''. '' @
                   qtext (snd (blocks content ! km) ! im), ''[[MultipleAnswer]]'', ''''] @
                optionsOf (snd (blocks content ! km) ! im)) @ ['''']"
    unfolding questionContribution_def by (simp add: questionLines_MultipleChoice)
qed

theorem one_blank_line_after_question_witness:
  "snd (blocks exampleDoc ! 1) \<noteq> []
   \<and> qtype (snd (blocks exampleDoc ! 1) ! 1) = Some FreeText
   \<and> (qtype (snd (blocks exampleDoc ! 1) ! 0) = Some SingleChoice \<or>
      qtype (snd (blocks exampleDoc ! 1) ! 0) = Some LikertScale)
   \<and> qtype (snd (blocks exampleDoc ! 4) ! 0) = Some MultipleChoice
   \<and> blockContribution exampleDoc 1 =
       [''[[Block:Core Questions: Usability]]'', ''''] @
       questionContribution exampleDoc 1 0 @ questionContribution exampleDoc 1 1
   \<and> questionContribution exampleDoc 1 1 = [''TE1. Describe your experience'', '''']
   \<and> questionContribution exampleDoc 1 0 =
       [''MC1. Rate ease of use'', '''', ''Strongly Disagree'', ''Disagree'', ''Neutral'',
        ''Agree'', ''Strongly Agree'', '''']
   \<and> questionContribution exampleDoc 4 0 =
       [''MC2. Which features do you use'', ''[[MultipleAnswer]]'', '''',
        ''A'', ''B'', ''C'', '''']"
proof -
  have hyps:
    "snd (blocks exampleDoc ! Suc 0) \<noteq> []"
    "qtype (snd (blocks exampleDoc ! Suc 0) ! Suc 0) = Some FreeText"
    "qtype (snd (blocks exampleDoc ! Suc 0) ! 0) = Some SingleChoice \<or>
     qtype (snd (blocks exampleDoc ! Suc 0) ! 0) = Some LikertScale"
    "qtype (snd (blocks exampleDoc ! 4) ! 0) = Some MultipleChoice"
    by code_simp+
  have vals:
    "fst (blocks exampleDoc ! Suc 0) = ''[[Block:Core Questions: Usability]]''"
    "[0..<length (snd (blocks exampleDoc ! Suc 0))] = [0, Suc 0]"
    "decimal (Suc (countTE (questionsBefore exampleDoc (Suc 0) (Suc 0)))) = ''1''"
    "decimal (Suc (countMC (questionsBefore exampleDoc (Suc 0) 0))) = ''1''"
    "decimal (Suc (countMC (questionsBefore exampleDoc 4 0))) = ''2''"
    "qtext (snd (blocks exampleDoc ! Suc 0) ! Suc 0) = ''Describe your experience''"
    "qtext (snd (blocks exampleDoc ! Suc 0) ! 0) = ''Rate ease of use''"
    "qtext (snd (blocks exampleDoc ! 4) ! 0) = ''Which features do you use''"
    "optionsOf (snd (blocks exampleDoc ! 4) ! 0) = [''A'', ''B'', ''C'']"
    "optionsOf (snd (blocks exampleDoc ! Suc 0) ! 0) =
       [''Strongly Disagree'', ''Disagree'', ''Neutral'', ''Agree'', ''Strongly Agree'']"
    by code_simp+
  show ?thesis
    using one_blank_line_after_question [of exampleDoc 1 1 1 1 0 4 0] hyps
    by (simp add: vals)
qed

section \<open>Claims about the three renderers\<close>

text \<open>
  Claim C1, as stated, fails for the plain-text renderer: \<open>formatContentAsText\<close> appends
  the three fixed headings without looking at the groups. The interview script below has
  no follow-ups, and its text holds the line \<open>## Follow-ups / Probes\<close>.
\<close>

theorem empty_group_heading_counterexample:
  "followUps interviewDoc = []
   \<and> formatContentAsText (Some interviewDoc) =
       ''## Opening / Warm-up Questions'' @ nl @
       ''- Tell me about yourself.'' @ nl @
       nl @
       ''## Core Questions: Pain Points'' @ nl @
       ''- What frustrates you?'' @ nl @
       nl @
       ''## Follow-ups / Probes'' @ nl @
       nl @
       ''## Closing / Wrap-up'' @ nl @
       ''- Any final thoughts?'' @ nl"
  by code_simp

text \<open>
  Claim C1, amended. The delimited serializer and the paginated layout emit nothing for
  an empty group: block \<open>e\<close> adds no line when its list of questions is empty, and
  \<open>addSection\<close> returns the state it was given, so that the group draws nothing. The
  plain-text renderer emits the heading of every group, empty or not: its output is the
  opening under its heading, a blank line, each core section under its heading with a
  blank line, the follow-ups under their heading, a blank line, and the closing under its
  heading, where an empty group is the heading line alone.
\<close>

theorem empty_groups:
  "qualtricsLines content =
     concat (map (blockContribution content) [0..<length (blocks content)])
   \<and> (snd (blocks content ! e) = [] \<longrightarrow> blockContribution content e = [])
   \<and> addSection split pageHeight w title [] st = st
   \<and> (\<exists>st'. handleExportPDF split pageWidth pageHeight (Some content) = Some st' \<and>
        drawn st' =
          (18, True, split 18 True (pdfTitle content) (pageWidth - 30)) #
          concat (map (pdfGroup split (pageWidth - 30)) (pdfGroups content)))
   \<and> (snd g = [] \<longrightarrow> pdfGroup split w g = [])
   \<and> formatContentAsText (Some content) =
       plainGroup ''Opening / Warm-up Questions'' (opening content) @ nl @
       concat (map (\<lambda>section.
                 plainGroup (''Core Questions: '' @ topic section) (questions section) @ nl)
               (core content)) @
       plainGroup ''Follow-ups / Probes'' (followUps content) @ nl @
       plainGroup ''Closing / Wrap-up'' (closing content)
   \<and> plainGroup label [] = ''## '' @ label @ nl"
proof (intro conjI impI)
  show "qualtricsLines content =
          concat (map (blockContribution content) [0..<length (blocks content)])"
    by (rule qualtricsLines_blocks)
next
  assume "snd (blocks content ! e) = []"
  then show "blockContribution content e = []"
    by (simp add: blockContribution_def)
next
  show "addSection split pageHeight w title [] st = st"
    by (simp add: addSection_def)
next
  show "\<exists>st'. handleExportPDF split pageWidth pageHeight (Some content) = Some st' \<and>
          drawn st' =
            (18, True, split 18 True (pdfTitle content) (pageWidth - 30)) #
            concat (map (pdfGroup split (pageWidth - 30)) (pdfGroups content))"
    by (rule drawn_handleExportPDF)
next
  assume "snd g = []"
  then show "pdfGroup split w g = []"
    by (simp add: pdfGroup_def)
next
  show "formatContentAsText (Some content) =
          plainGroup ''Opening / Warm-up Questions'' (opening content) @ nl @
          concat (map (\<lambda>section.
                    plainGroup (''Core Questions: '' @ topic section) (questions section) @ nl)
                  (core content)) @
          plainGroup ''Follow-ups / Probes'' (followUps content) @ nl @
          plainGroup ''Closing / Wrap-up'' (closing content)"
    by (rule formatContentAsText_groups)
next
  show "plainGroup label [] = ''## '' @ label @ nl"
    by (simp add: plainGroup_def)
qed

theorem empty_groups_witness:
  "snd (blocks exampleDoc ! 3) = []
   \<and> fst (blocks exampleDoc ! 3) = ''[[Block:Follow-ups / Probes]]''
   \<and> snd (pdfGroups exampleDoc ! 3) = []
   \<and> fst (pdfGroups exampleDoc ! 3) = ''Follow-ups / Probes''
   \<and> blockContribution exampleDoc 3 = []
   \<and> pdfGroup oneLine 180 (pdfGroups exampleDoc ! 3) = []"
proof -
  have hyps:
    "snd (blocks exampleDoc ! 3) = []"
    "snd (pdfGroups exampleDoc ! 3) = []"
    by code_simp+
  have names:
    "fst (blocks exampleDoc ! 3) = ''[[Block:Follow-ups / Probes]]''"
    "fst (pdfGroups exampleDoc ! 3) = ''Follow-ups / Probes''"
    by code_simp+
  show ?thesis
    using empty_groups [of exampleDoc 3 _ _ _ _ _ _ "pdfGroups exampleDoc ! 3"] hyps names
    by simp
qed

text \<open>
  Claim C5, as stated, fails for the plain-text renderer and the paginated layout: both
  look at \<open>q.options\<close> only, so a free-text question that carries options is followed by
  its option lines.
\<close>

theorem free_text_options_counterexample:
  "opening optionedFreeTextDoc = [optionedFreeText]
   \<and> qtype optionedFreeText = Some FreeText
   \<and> formatContentAsText (Some optionedFreeTextDoc) =
       ''## Opening / Warm-up Questions'' @ nl @
       ''- Anything else'' @ nl @
       ''  - Yes'' @ nl @
       ''  - No'' @ nl @
       nl @
       ''## Follow-ups / Probes'' @ nl @
       nl @
       ''## Closing / Wrap-up'' @ nl
   \<and> drawn (the (handleExportPDF oneLine 210 297 (Some optionedFreeTextDoc))) =
       [(18, True, [''Generated Script'']),
        (14, True, [''Opening / Warm-up Questions'']),
        (11, False, [''- Anything else'']),
        (10, False, [''    '' @ bullet @ '' Yes'']),
        (10, False, [''    '' @ bullet @ '' No''])]"
  by code_simp

text \<open>
  Claim C5, amended. In delimited output a free-text question is the single line
  \<open>TE\<close>, number, dot, space, text, followed by the blank line that ends every question,
  whatever its options hold. The plain-text renderer and the paginated layout do not look
  at the type: after the question line they emit one line per option, so a free-text
  question is followed by no option line exactly when it has no options or an empty list
  of options.
\<close>

theorem free_text_rendering:
  "qualtricsLines content =
     concat (map (blockContribution content) [0..<length (blocks content)])
   \<and> (snd (blocks content ! k) \<noteq> [] \<longrightarrow>
        blockContribution content k =
          [fst (blocks content ! k), ''''] @
          concat (map (questionContribution content k)
                      [0..<length (snd (blocks content ! k))]))
   \<and> (qtype (snd (blocks content ! kf) ! jf) = Some FreeText \<longrightarrow>
        questionContribution content kf jf =
          [''TE'' @ decimal (1 + countTE (questionsBefore content kf jf)) @ ''. '' @
             qtext (snd (blocks content ! kf) ! jf), ''''])
   \<and> plainQuestion acc q = acc @ plainItem q
   \<and> (qoptions q1 = None \<or> qoptions q1 = Some [] \<longrightarrow> plainItem q1 = ''- '' @ qtext q1 @ nl)
   \<and> (qoptions q2 = Some (opt # opts) \<longrightarrow>
        plainItem q2 =
          ''- '' @ qtext q2 @ nl @ concat (map (\<lambda>x. ''  - '' @ x @ nl) (opt # opts)))
   \<and> drawn (addQuestion split pageHeight w st q) = drawn st @ pdfItem split w q
   \<and> (qoptions q1 = None \<or> qoptions q1 = Some [] \<longrightarrow>
        pdfItem split w q1 = [(11, False, split 11 False (''- '' @ qtext q1) (w - 5))])
   \<and> (qoptions q2 = Some (opt # opts) \<longrightarrow>
        pdfItem split w q2 =
          (11, False, split 11 False (''- '' @ qtext q2) (w - 5)) #
          map (\<lambda>x. (10, False, split 10 False (''    '' @ bullet @ '' '' @ x) (w - 10)))
              (opt # opts))"
proof (intro conjI impI)
  show "qualtricsLines content =
          concat (map (blockContribution content) [0..<length (blocks content)])"
    by (rule qualtricsLines_blocks)
next
  assume "snd (blocks content ! k) \<noteq> []"
  then show "blockContribution content k =
               [fst (blocks content ! k), ''''] @
               concat (map (questionContribution content k)
                           [0..<length (snd (blocks content ! k))])"
    by (simp add: blockContribution_def)
next
  assume "qtype (snd (blocks content ! kf) ! jf) = Some FreeText"
  then show "questionContribution content kf jf =
               [''TE'' @ decimal (1 + countTE (questionsBefore content kf jf)) @ ''. '' @
                  qtext (snd (blocks content ! kf) ! jf), '''']"
    unfolding questionContribution_def by (rule questionLines_FreeText)
next
  show "plainQuestion acc q = acc @ plainItem q"
    by (rule plainQuestion_plainItem)
next
  assume "qoptions q1 = None \<or> qoptions q1 = Some []"
  then show "plainItem q1 = ''- '' @ qtext q1 @ nl"
    by (auto simp: plainItem_def optionsOf_def)
next
  assume "qoptions q2 = Some (opt # opts)"
  then show "plainItem q2 =
               ''- '' @ qtext q2 @ nl @ concat (map (\<lambda>x. ''  - '' @ x @ nl) (opt # opts))"
    by (simp add: plainItem_def optionsOf_def)
next
  show "drawn (addQuestion split pageHeight w st q) = drawn st @ pdfItem split w q"
    by (rule drawn_addQuestion)
next
  assume "qoptions q1 = None \<or> qoptions q1 = Some []"
  then show "pdfItem split w q1 = [(11, False, split 11 False (''- '' @ qtext q1) (w - 5))]"
    by (auto simp: pdfItem_def optionsOf_def)
next
  assume "qoptions q2 = Some (opt # opts)"
  then show "pdfItem split w q2 =
               (11, False, split 11 False (''- '' @ qtext q2) (w - 5)) #
               map (\<lambda>x. (10, False, split 10 False (''    '' @ bullet @ '' '' @ x) (w - 10)))
                   (opt # opts)"
    by (simp add: pdfItem_def optionsOf_def)
qed

theorem free_text_rendering_witness:
  "snd (blocks exampleDoc ! 1) \<noteq> []
   \<and> qtype (snd (blocks exampleDoc ! 1) ! 1) = Some FreeText
   \<and> qtype freeTextQuestion = Some FreeText
   \<and> qoptions freeTextQuestion = None
   \<and> qtype optionedFreeText = Some FreeText
   \<and> qoptions optionedFreeText = Some [''Yes'', ''No'']
   \<and> questionContribution exampleDoc 1 1 = [''TE1. Describe your experience'', '''']
   \<and> plainItem freeTextQuestion = ''- Describe your experience'' @ nl
   \<and> plainItem optionedFreeText =
       ''- Anything else'' @ nl @ ''  - Yes'' @ nl @ ''  - No'' @ nl
   \<and> pdfItem oneLine 180 freeTextQuestion = [(11, False, [''- Describe your experience''])]
   \<and> pdfItem oneLine 180 optionedFreeText =
       [(11, False, [''- Anything else'']),
        (10, False, [''    '' @ bullet @ '' Yes'']),
        (10, False, [''    '' @ bullet @ '' No''])]"
proof -
  have hyps:
    "snd (blocks exampleDoc ! Suc 0) \<noteq> []"
    "qtype (snd (blocks exampleDoc ! Suc 0) ! Suc 0) = Some FreeText"
    "qoptions freeTextQuestion = None \<or> qoptions freeTextQuestion = Some []"
    "qoptions optionedFreeText = Some [''Yes'', ''No'']"
    by code_simp+
  have vals:
    "qtype freeTextQuestion = Some FreeText"
    "qoptions freeTextQuestion = None"
    "qtype optionedFreeText = Some FreeText"
    "decimal (Suc (countTE (questionsBefore exampleDoc (Suc 0) (Suc 0)))) = ''1''"
    "qtext (snd (blocks exampleDoc ! Suc 0) ! Suc 0) = ''Describe your experience''"
    "qtext freeTextQuestion = ''Describe your experience''"
    "qtext optionedFreeText = ''Anything else''"
    by code_simp+
  show ?thesis
    using free_text_rendering
            [of exampleDoc 1 1 1 _ _ freeTextQuestion optionedFreeText "''Yes''" "[''No'']"
                oneLine _ 180]
          hyps
    by (simp add: vals oneLine_def)
qed

text \<open>
  Claim C6. Each renderer walks the groups in the order opening, core sections in
  document order, follow-ups, closing, and inside a group the questions in the order of
  the list, each question with its options in the order of their list. The plain text is
  the concatenation of the groups' texts in that order, where the text of a group
  (\<open>plainGroup\<close>) is its heading and the texts of its questions in order, and the text of
  a question (\<open>plainItem\<close>) is its line and then its option lines in order. The texts drawn
  on the pages are the title and then, group by group in that order (\<open>pdfGroups\<close>), for
  each group that has questions its heading and, for each question in order, the question
  text and then the option texts in order (\<open>pdfItem\<close>). The delimited lines are the
  concatenation of the blocks' lines in that order (\<open>blocks\<close>), the lines of a block are
  the marker, a blank line and the lines of the questions in order, and every question
  with a type contributes its numbered line and, for a choice or scale question, its
  options in order; only questions without a type contribute nothing.
\<close>

theorem renderers_preserve_order:
  "formatContentAsText (Some content) =
     plainGroup ''Opening / Warm-up Questions'' (opening content) @ nl @
     concat (map (\<lambda>section.
               plainGroup (''Core Questions: '' @ topic section) (questions section) @ nl)
             (core content)) @
     plainGroup ''Follow-ups / Probes'' (followUps content) @ nl @
     plainGroup ''Closing / Wrap-up'' (closing content)
   \<and> (\<exists>st. handleExportPDF split pageWidth pageHeight (Some content) = Some st \<and>
        drawn st =
          (18, True, split 18 True (pdfTitle content) (pageWidth - 30)) #
          concat (map (pdfGroup split (pageWidth - 30)) (pdfGroups content)))
   \<and> (qs \<noteq> [] \<longrightarrow>
        pdfGroup split w (label, qs) =
          (14, True, split 14 True label w) # concat (map (pdfItem split w) qs))
   \<and> qualtricsLines content =
       concat (map (blockContribution content) [0..<length (blocks content)])
   \<and> (snd (blocks content ! k) \<noteq> [] \<longrightarrow>
        blockContribution content k =
          [fst (blocks content ! k), ''''] @
          concat (map (questionContribution content k)
                      [0..<length (snd (blocks content ! k))]))
   \<and> (qtype qf = Some FreeText \<longrightarrow>
        questionLines mc te qf = [''TE'' @ decimal te @ ''. '' @ qtext qf, ''''])
   \<and> (qtype qc = Some SingleChoice \<or> qtype qc = Some LikertScale \<longrightarrow>
        questionLines mc te qc =
          [''MC'' @ decimal mc @ ''. '' @ qtext qc, ''''] @ optionsOf qc @ [''''])
   \<and> (qtype qm = Some MultipleChoice \<longrightarrow>
        questionLines mc te qm =
          [''MC'' @ decimal mc @ ''. '' @ qtext qm, ''[[MultipleAnswer]]'', ''''] @
          optionsOf qm @ [''''])"
proof (intro conjI impI)
  show "formatContentAsText (Some content) =
          plainGroup ''Opening / Warm-up Questions'' (opening content) @ nl @
          concat (map (\<lambda>section.
                    plainGroup (''Core Questions: '' @ topic section) (questions section) @ nl)
                  (core content)) @
          plainGroup ''Follow-ups / Probes'' (followUps content) @ nl @
          plainGroup ''Closing / Wrap-up'' (closing content)"
    by (rule formatContentAsText_groups)
next
  show "\<exists>st. handleExportPDF split pageWidth pageHeight (Some content) = Some st \<and>
          drawn st =
            (18, True, split 18 True (pdfTitle content) (pageWidth - 30)) #
            concat (map (pdfGroup split (pageWidth - 30)) (pdfGroups content))"
    by (rule drawn_handleExportPDF)
next
  assume "qs \<noteq> []"
  then show "pdfGroup split w (label, qs) =
               (14, True, split 14 True label w) # concat (map (pdfItem split w) qs)"
    by (simp add: pdfGroup_def)
next
  show "qualtricsLines content =
          concat (map (blockContribution content) [0..<length (blocks content)])"
    by (rule qualtricsLines_blocks)
next
  assume "snd (blocks content ! k) \<noteq> []"
  then show "blockContribution content k =
               [fst (blocks content ! k), ''''] @
               concat (map (questionContribution content k)
                           [0..<length (snd (blocks content ! k))])"
    by (simp add: blockContribution_def)
next
  assume "qtype qf = Some FreeText"
  then show "questionLines mc te qf = [''TE'' @ decimal te @ ''. '' @ qtext qf, '''']"
    by (rule questionLines_FreeText)
next
  assume "qtype qc = Some SingleChoice \<or> qtype qc = Some LikertScale"
  then show "questionLines mc te qc =
               [''MC'' @ decimal mc @ ''. '' @ qtext qc, ''''] @ optionsOf qc @ ['''']"
    by (auto simp: questionLines_SingleChoice questionLines_LikertScale)
next
  assume "qtype qm = Some MultipleChoice"
  then show "questionLines mc te qm =
               [''MC'' @ decimal mc @ ''. '' @ qtext qm, ''[[MultipleAnswer]]'', ''''] @
               optionsOf qm @ ['''']"
    by (rule questionLines_MultipleChoice)
qed

theorem renderers_preserve_order_witness:
  "[likertQuestion, freeTextQuestion] \<noteq> []
   \<and> snd (blocks exampleDoc ! 1) = [likertQuestion, freeTextQuestion]
   \<and> qtype freeTextQuestion = Some FreeText
   \<and> qtype likertQuestion = Some LikertScale
   \<and> qtype multipleQuestion = Some MultipleChoice
   \<and> formatContentAsText (Some exampleDoc) =
       ''## Opening / Warm-up Questions'' @ nl @
       ''- Tell me about yourself.'' @ nl @
       nl @
       ''## Core Questions: Usability'' @ nl @
       ''- Rate ease of use'' @ nl @
       ''  - Strongly Disagree'' @ nl @
       ''  - Disagree'' @ nl @
       ''  - Neutral'' @ nl @
       ''  - Agree'' @ nl @
       ''  - Strongly Agree'' @ nl @
       ''- Describe your experience'' @ nl @
       nl @
       ''## Core Questions: Pricing'' @ nl @
       nl @
       ''## Follow-ups / Probes'' @ nl @
       nl @
       ''## Closing / Wrap-up'' @ nl @
       ''- Which features do you use'' @ nl @
       ''  - A'' @ nl @
       ''  - B'' @ nl @
       ''  - C'' @ nl
   \<and> pdfGroup oneLine 180 (''Core Questions: Usability'', [likertQuestion, freeTextQuestion]) =
       [(14, True, [''Core Questions: Usability'']),
        (11, False, [''- Rate ease of use'']),
        (10, False, [''    '' @ bullet @ '' Strongly Disagree'']),
        (10, False, [''    '' @ bullet @ '' Disagree'']),
        (10, False, [''    '' @ bullet @ '' Neutral'']),
        (10, False, [''    '' @ bullet @ '' Agree'']),
        (10, False, [''    '' @ bullet @ '' Strongly Agree'']),
        (11, False, [''- Describe your experience''])]
   \<and> qualtricsLines exampleDoc =
       [''[[Block:Opening / Warm-up Questions]]'', '''',
        ''[[Block:Core Questions: Usability]]'', '''',
        ''MC1. Rate ease of use'', '''',
        ''Strongly Disagree'', ''Disagree'', ''Neutral'', ''Agree'', ''Strongly Agree'', '''',
        ''TE1. Describe your experience'', '''',
        ''[[Block:Closing / Wrap-up]]'', '''',
        ''MC2. Which features do you use'', ''[[MultipleAnswer]]'', '''',
        ''A'', ''B'', ''C'', '''']
   \<and> blockContribution exampleDoc 1 =
       [''[[Block:Core Questions: Usability]]'', ''''] @
       questionLines 1 1 likertQuestion @ questionLines 2 1 freeTextQuestion
   \<and> questionLines 2 1 freeTextQuestion = [''TE1. Describe your experience'', '''']
   \<and> questionLines 1 1 likertQuestion =
       [''MC1. Rate ease of use'', '''',
        ''Strongly Disagree'', ''Disagree'', ''Neutral'', ''Agree'', ''Strongly Agree'', '''']
   \<and> questionLines 2 1 multipleQuestion =
       [''MC2. Which features do you use'', ''[[MultipleAnswer]]'', '''',
        ''A'', ''B'', ''C'', '''']"
proof -
  have hyps:
    "[likertQuestion, freeTextQuestion] \<noteq> []"
    "snd (blocks exampleDoc ! 1) \<noteq> []"
    "qtype freeTextQuestion = Some FreeText"
    "qtype likertQuestion = Some SingleChoice \<or> qtype likertQuestion = Some LikertScale"
    "qtype multipleQuestion = Some MultipleChoice"
    by code_simp+
  have vals:
    "snd (blocks exampleDoc ! 1) = [likertQuestion, freeTextQuestion]"
    "fst (blocks exampleDoc ! 1) = ''[[Block:Core Questions: Usability]]''"
    "qtype likertQuestion = Some LikertScale"
    by code_simp+
  have contributions:
    "questionContribution exampleDoc 1 0 = questionLines 1 1 likertQuestion"
    "questionContribution exampleDoc 1 1 = questionLines 2 1 freeTextQuestion"
    by code_simp+
  have evaluated:
    "formatContentAsText (Some exampleDoc) =
       ''## Opening / Warm-up Questions'' @ nl @
       ''- Tell me about yourself.'' @ nl @
       nl @
       ''## Core Questions: Usability'' @ nl @
       ''- Rate ease of use'' @ nl @
       ''  - Strongly Disagree'' @ nl @
       ''  - Disagree'' @ nl @
       ''  - Neutral'' @ nl @
       ''  - Agree'' @ nl @
       ''  - Strongly Agree'' @ nl @
       ''- Describe your experience'' @ nl @
       nl @
       ''## Core Questions: Pricing'' @ nl @
       nl @
       ''## Follow-ups / Probes'' @ nl @
       nl @
       ''## Closing / Wrap-up'' @ nl @
       ''- Which features do you use'' @ nl @
       ''  - A'' @ nl @
       ''  - B'' @ nl @
       ''  - C'' @ nl"
    "pdfGroup oneLine 180 (''Core Questions: Usability'', [likertQuestion, freeTextQuestion]) =
       [(14, True, [''Core Questions: Usability'']),
        (11, False, [''- Rate ease of use'']),
        (10, False, [''    '' @ bullet @ '' Strongly Disagree'']),
        (10, False, [''    '' @ bullet @ '' Disagree'']),
        (10, False, [''    '' @ bullet @ '' Neutral'']),
        (10, False, [''    '' @ bullet @ '' Agree'']),
        (10, False, [''    '' @ bullet @ '' Strongly Agree'']),
        (11, False, [''- Describe your experience''])]"
    "qualtricsLines exampleDoc =
       [''[[Block:Opening / Warm-up Questions]]'', '''',
        ''[[Block:Core Questions: Usability]]'', '''',
        ''MC1. Rate ease of use'', '''',
        ''Strongly Disagree'', ''Disagree'', ''Neutral'', ''Agree'', ''Strongly Agree'', '''',
        ''TE1. Describe your experience'', '''',
        ''[[Block:Closing / Wrap-up]]'', '''',
        ''MC2. Which features do you use'', ''[[MultipleAnswer]]'', '''',
        ''A'', ''B'', ''C'', '''']"
    "questionLines 2 1 freeTextQuestion = [''TE1. Describe your experience'', '''']"
    "questionLines 1 1 likertQuestion =
       [''MC1. Rate ease of use'', '''',
        ''Strongly Disagree'', ''Disagree'', ''Neutral'', ''Agree'', ''Strongly Agree'', '''']"
    "questionLines 2 1 multipleQuestion =
       [''MC2. Which features do you use'', ''[[MultipleAnswer]]'', '''',
        ''A'', ''B'', ''C'', '''']"
    by code_simp+
  have upt: "[0..<length [likertQuestion, freeTextQuestion]] = [0, 1]"
    by code_simp
  have "snd (blocks exampleDoc ! 1) \<noteq> [] \<longrightarrow>
        blockContribution exampleDoc 1 =
          [fst (blocks exampleDoc ! 1), ''''] @
          concat (map (questionContribution exampleDoc 1)
                      [0..<length (snd (blocks exampleDoc ! 1))])"
    using renderers_preserve_order
            [where content = exampleDoc and qs = "[likertQuestion, freeTextQuestion]"
               and k = 1 and qf = freeTextQuestion and qc = likertQuestion
               and qm = multipleQuestion]
    by blast
  with hyps have "blockContribution exampleDoc 1 =
          [fst (blocks exampleDoc ! 1), ''''] @
          concat (map (questionContribution exampleDoc 1)
                      [0..<length (snd (blocks exampleDoc ! 1))])"
    by blast
  then have block:
    "blockContribution exampleDoc 1 =
       [''[[Block:Core Questions: Usability]]'', ''''] @
       questionLines 1 1 likertQuestion @ questionLines 2 1 freeTextQuestion"
    by (simp only: vals upt list.map concat.simps contributions append_Nil2)
  show ?thesis
    by (intro conjI) (rule hyps vals block evaluated)+
qed

section \<open>Claim about the pagination\<close>

text \<open>
  Claim C7. \<open>checkPageBreak\<close> starts a new page and puts the cursor back to the top margin
  when the cursor plus the height it is asked for exceeds the page height minus the
  margin, and leaves the state as it is otherwise. Every text of the document (the title,
  a heading, a question, an option) is drawn right after such a check with the height of
  its block, so it is drawn with the cursor at the top margin or with its block ending
  above the bottom margin, and in both cases with the cursor not below the page height
  minus the margin. The page is at least two margins high, as the A4 page of the source
  is (297 against 30).
\<close>

theorem page_break_invariant:
  assumes "margin \<le> pageHeight - margin"
  shows "(cursorY s + h > pageHeight - margin \<longrightarrow>
            checkPageBreak pageHeight h s = s\<lparr>page := page s + 1, cursorY := margin\<rparr>)
         \<and> (cursorY s + h \<le> pageHeight - margin \<longrightarrow> checkPageBreak pageHeight h s = s)
         \<and> (\<exists>st. handleExportPDF split pageWidth pageHeight (Some content) = Some st \<and>
              (\<forall>op \<in> set (ops st).
                 (opY op = margin \<or> opY op + blockExtent op \<le> pageHeight - margin)
                 \<and> opY op \<le> pageHeight - margin))"
proof (intro conjI impI)
  assume "cursorY s + h > pageHeight - margin"
  then show "checkPageBreak pageHeight h s = s\<lparr>page := page s + 1, cursorY := margin\<rparr>"
    by (simp add: checkPageBreak_def)
next
  assume "cursorY s + h \<le> pageHeight - margin"
  then show "checkPageBreak pageHeight h s = s"
    by (simp add: checkPageBreak_def)
next
  show "\<exists>st. handleExportPDF split pageWidth pageHeight (Some content) = Some st \<and>
          (\<forall>op \<in> set (ops st).
             (opY op = margin \<or> opY op + blockExtent op \<le> pageHeight - margin)
             \<and> opY op \<le> pageHeight - margin)"
    using placed_handleExportPDF [OF assms, of split pageWidth content]
    by (simp add: wellPlaced_def)
qed

theorem page_break_invariant_witness:
  "margin \<le> 60 - margin
   \<and> cursorY \<lparr>cursorY = 33, page = 1, fontSize = 14, bold = True, ops = []\<rparr> + 15
       > 60 - margin
   \<and> checkPageBreak 60 15 \<lparr>cursorY = 33, page = 1, fontSize = 14, bold = True, ops = []\<rparr> =
       \<lparr>cursorY = 15, page = 2, fontSize = 14, bold = True, ops = []\<rparr>
   \<and> cursorY \<lparr>cursorY = 15, page = 1, fontSize = 18, bold = True, ops = []\<rparr> + 8
       \<le> 60 - margin
   \<and> checkPageBreak 60 8 \<lparr>cursorY = 15, page = 1, fontSize = 18, bold = True, ops = []\<rparr> =
       \<lparr>cursorY = 15, page = 1, fontSize = 18, bold = True, ops = []\<rparr>
   \<and> map opY (ops (the (handleExportPDF oneLine 210 60 (Some exampleDoc)))) =
       [15, 15, 26, 15, 26, 33, 75 / 2, 15, 39 / 2, 24, 61 / 2, 15, 26, 33, 75 / 2, 15]
   \<and> map opPage (ops (the (handleExportPDF oneLine 210 60 (Some exampleDoc)))) =
       [1, 2, 2, 3, 3, 3, 3, 4, 4, 4, 4, 5, 5, 5, 5, 6]
   \<and> opY (ops (the (handleExportPDF oneLine 210 60 (Some exampleDoc))) ! 6) \<le> 60 - margin"
proof -
  have hyp: "margin \<le> 60 - margin"
    by (simp add: margin_def)
  have over:
    "cursorY \<lparr>cursorY = 33, page = 1, fontSize = 14, bold = True, ops = []\<rparr> + 15
       > 60 - margin"
    by (simp add: margin_def)
  have under:
    "cursorY \<lparr>cursorY = 15, page = 1, fontSize = 18, bold = True, ops = []\<rparr> + 8
       \<le> 60 - margin"
    by (simp add: margin_def)
  note inst1 = page_break_invariant
                 [OF hyp, of "\<lparr>cursorY = 33, page = 1, fontSize = 14, bold = True, ops = []\<rparr>"
                    15 oneLine 210 exampleDoc]
  note inst2 = page_break_invariant
                 [OF hyp, of "\<lparr>cursorY = 15, page = 1, fontSize = 18, bold = True, ops = []\<rparr>"
                    8 oneLine 210 exampleDoc]
  have break:
    "checkPageBreak 60 15 \<lparr>cursorY = 33, page = 1, fontSize = 14, bold = True, ops = []\<rparr> =
       \<lparr>cursorY = 15, page = 2, fontSize = 14, bold = True, ops = []\<rparr>"
    using inst1 over by (simp add: margin_def)
  have stay:
    "checkPageBreak 60 8 \<lparr>cursorY = 15, page = 1, fontSize = 18, bold = True, ops = []\<rparr> =
       \<lparr>cursorY = 15, page = 1, fontSize = 18, bold = True, ops = []\<rparr>"
    using inst2 under by simp
  have positions:
    "map opY (ops (the (handleExportPDF oneLine 210 60 (Some exampleDoc)))) =
       [15, 15, 26, 15, 26, 33, 75 / 2, 15, 39 / 2, 24, 61 / 2, 15, 26, 33, 75 / 2, 15]"
    by code_simp
  have pages:
    "map opPage (ops (the (handleExportPDF oneLine 210 60 (Some exampleDoc)))) =
       [1, 2, 2, 3, 3, 3, 3, 4, 4, 4, 4, 5, 5, 5, 5, 6]"
    by code_simp
  from inst1 obtain st where
    st: "handleExportPDF oneLine 210 60 (Some exampleDoc) = Some st" and
    placed: "\<forall>op \<in> set (ops st). opY op \<le> 60 - margin"
    by blast
  have "length (map opY (ops st)) = 16"
    using positions st by simp
  then have "ops st ! 6 \<in> set (ops st)"
    by simp
  with placed have "opY (ops st ! 6) \<le> 60 - margin"
    by blast
  then have seventh:
    "opY (ops (the (handleExportPDF oneLine 210 60 (Some exampleDoc))) ! 6) \<le> 60 - margin"
    by (simp add: st)
  show ?thesis
    by (intro conjI) (rule hyp over break under stay positions pages seventh)+
qed

section \<open>Claim about the text edit\<close>

text \<open>
  Claim C8. For a document and an edit that names one of the three lists of questions,
  or the core group with the index of one of its sections, the edit returns a document.
  In it the list that the edit names has the text of the first question with the
  identifier replaced by the new text (\<open>replaceText\<close>), and is the same list when no
  question of it has the identifier; the other lists, the other core sections, the topic
  of every section and the questionnaire flag are the same. The replacement keeps the
  length of the list and the identifier, type and options of every question, and changes
  no question but the first one that has the identifier. The key \<open>core\<close> without an
  index returns the document unchanged.
\<close>

theorem text_edit_frame:
  assumes "sec \<noteq> K_isQuestionnaire"
    and "sec = K_core \<longrightarrow> (\<forall>k. coreIndex = Some k \<longrightarrow> k < length (core d))"
  shows "\<exists>d'. updateQuestionText sec ident newText coreIndex (Some d) = Inr (Some d')
           \<and> isQuestionnaire d' = isQuestionnaire d
           \<and> opening d' = (if sec = K_opening then replaceText ident newText (opening d)
                            else opening d)
           \<and> followUps d' = (if sec = K_followUps
                              then replaceText ident newText (followUps d) else followUps d)
           \<and> closing d' = (if sec = K_closing then replaceText ident newText (closing d)
                            else closing d)
           \<and> length (core d') = length (core d)
           \<and> map topic (core d') = map topic (core d)
           \<and> (\<forall>k < length (core d).
                 questions (core d' ! k) =
                   (if sec = K_core \<and> coreIndex = Some k
                    then replaceText ident newText (questions (core d ! k))
                    else questions (core d ! k)))
           \<and> length (replaceText ident newText qs) = length qs
           \<and> map qid (replaceText ident newText qs) = map qid qs
           \<and> map qtype (replaceText ident newText qs) = map qtype qs
           \<and> map qoptions (replaceText ident newText qs) = map qoptions qs
           \<and> ((\<forall>q \<in> set qs. qid q \<noteq> ident) \<longrightarrow> replaceText ident newText qs = qs)
           \<and> (\<forall>i < length qs. qid (qs ! i) = ident \<and> (\<forall>j < i. qid (qs ! j) \<noteq> ident) \<longrightarrow>
                 replaceText ident newText qs = qs[i := (qs ! i)\<lparr>qtext := newText\<rparr>])"
proof -
  have untouched: "replaceText ident newText qs = qs" if "\<forall>q \<in> set qs. qid q \<noteq> ident"
  proof (cases "firstMatch ident qs")
    case None
    then show ?thesis by (simp add: replaceText_def)
  next
    case (Some i)
    from firstMatch_Some [OF this] that show ?thesis by auto
  qed
  have touched: "replaceText ident newText qs = qs[i := (qs ! i)\<lparr>qtext := newText\<rparr>]"
    if "i < length qs" and "qid (qs ! i) = ident" and "\<forall>j < i. qid (qs ! j) \<noteq> ident" for i
  proof (cases "firstMatch ident qs")
    case None
    from firstMatch_None [OF this] that(1,2) show ?thesis by auto
  next
    case (Some i')
    from firstMatch_Some [OF this] that have "i' = i"
      by (metis linorder_neqE_nat)
    with Some show ?thesis by (simp add: replaceText_def)
  qed
  have list_facts:
    "length (replaceText ident newText qs) = length qs
     \<and> map qid (replaceText ident newText qs) = map qid qs
     \<and> map qtype (replaceText ident newText qs) = map qtype qs
     \<and> map qoptions (replaceText ident newText qs) = map qoptions qs
     \<and> ((\<forall>q \<in> set qs. qid q \<noteq> ident) \<longrightarrow> replaceText ident newText qs = qs)
     \<and> (\<forall>i < length qs. qid (qs ! i) = ident \<and> (\<forall>j < i. qid (qs ! j) \<noteq> ident) \<longrightarrow>
           replaceText ident newText qs = qs[i := (qs ! i)\<lparr>qtext := newText\<rparr>])"
    using replaceText_frame [of ident newText qs] untouched touched by blast
  have doc_facts:
    "\<exists>d'. updateQuestionText sec ident newText coreIndex (Some d) = Inr (Some d')
       \<and> isQuestionnaire d' = isQuestionnaire d
       \<and> opening d' = (if sec = K_opening then replaceText ident newText (opening d)
                        else opening d)
       \<and> followUps d' = (if sec = K_followUps
                          then replaceText ident newText (followUps d) else followUps d)
       \<and> closing d' = (if sec = K_closing then replaceText ident newText (closing d)
                        else closing d)
       \<and> length (core d') = length (core d)
       \<and> map topic (core d') = map topic (core d)
       \<and> (\<forall>k < length (core d).
             questions (core d' ! k) =
               (if sec = K_core \<and> coreIndex = Some k
                then replaceText ident newText (questions (core d ! k))
                else questions (core d ! k)))"
  proof (cases sec)
    case K_opening
    then show ?thesis
      by (simp add: updateQuestionText_def jsonClone_def patchQuestions_replaceText)
  next
    case K_followUps
    then show ?thesis
      by (simp add: updateQuestionText_def jsonClone_def patchQuestions_replaceText)
  next
    case K_closing
    then show ?thesis
      by (simp add: updateQuestionText_def jsonClone_def patchQuestions_replaceText)
  next
    case K_isQuestionnaire
    with assms(1) show ?thesis by simp
  next
    case K_core
    show ?thesis
    proof (cases coreIndex)
      case None
      with K_core show ?thesis
        by (simp add: updateQuestionText_def jsonClone_def findIndex_def findIndexFrom_never)
    next
      case (Some k)
      with K_core assms(2) have k: "k < length (core d)"
        by simp
      have "map topic ((core d)[k := (core d ! k)\<lparr>questions :=
                 replaceText ident newText (questions (core d ! k))\<rparr>]) = map topic (core d)"
        using k by (simp add: map_update list_update_same_conv)
      with K_core Some k show ?thesis
        by (simp add: updateQuestionText_def jsonClone_def patchQuestions_replaceText
              nth_list_update)
    qed
  qed
  from doc_facts list_facts show ?thesis
    by blast
qed

theorem text_edit_frame_witness:
  "K_core \<noteq> K_isQuestionnaire
   \<and> (0::nat) < length (core exampleDoc)
   \<and> qid ([likertQuestion, freeTextQuestion] ! 0) = ''q1''
   \<and> qid ([likertQuestion, freeTextQuestion] ! 1) = ''q2''
   \<and> replaceText ''q2'' ''How was it?'' [likertQuestion, freeTextQuestion] =
       [likertQuestion, freeTextQuestion\<lparr>qtext := ''How was it?''\<rparr>]
   \<and> updateQuestionText K_core ''q2'' ''How was it?'' (Some 0) (Some exampleDoc) =
       Inr (Some (exampleDoc\<lparr>core :=
         [\<lparr>topic = ''Usability'',
           questions = [likertQuestion, freeTextQuestion\<lparr>qtext := ''How was it?''\<rparr>]\<rparr>,
          \<lparr>topic = ''Pricing'', questions = []\<rparr>]\<rparr>))
   \<and> updateQuestionText K_core ''q2'' ''How was it?'' (Some 2) (Some exampleDoc) =
       Inl TypeError"
proof -
  let ?qs = "[likertQuestion, freeTextQuestion]"
  have h1: "K_core \<noteq> K_isQuestionnaire"
    by simp
  have len: "(0::nat) < length (core exampleDoc)"
    by code_simp
  then have h2: "K_core = K_core \<longrightarrow> (\<forall>k. Some 0 = Some k \<longrightarrow> k < length (core exampleDoc))"
    by simp
  have ids: "qid (?qs ! 0) = ''q1''" "qid (?qs ! 1) = ''q2''"
    by code_simp+
  have first: "(1::nat) < length ?qs \<and> qid (?qs ! 1) = ''q2'' \<and>
               (\<forall>j < 1. qid (?qs ! j) \<noteq> ''q2'')"
    using ids by simp
  from text_edit_frame [OF h1 h2, of "''q2''" "''How was it?''" ?qs]
  have "\<forall>i < length ?qs. qid (?qs ! i) = ''q2'' \<and> (\<forall>j < i. qid (?qs ! j) \<noteq> ''q2'') \<longrightarrow>
          replaceText ''q2'' ''How was it?'' ?qs = ?qs[i := (?qs ! i)\<lparr>qtext := ''How was it?''\<rparr>]"
    by blast
  with first have "replaceText ''q2'' ''How was it?'' ?qs =
                     ?qs[1 := (?qs ! 1)\<lparr>qtext := ''How was it?''\<rparr>]"
    by blast
  then have replaced:
    "replaceText ''q2'' ''How was it?'' ?qs =
       [likertQuestion, freeTextQuestion\<lparr>qtext := ''How was it?''\<rparr>]"
    by simp
  have edited:
    "updateQuestionText K_core ''q2'' ''How was it?'' (Some 0) (Some exampleDoc) =
       Inr (Some (exampleDoc\<lparr>core :=
         [\<lparr>topic = ''Usability'',
           questions = [likertQuestion, freeTextQuestion\<lparr>qtext := ''How was it?''\<rparr>]\<rparr>,
          \<lparr>topic = ''Pricing'', questions = []\<rparr>]\<rparr>))"
    by code_simp
  have outside:
    "updateQuestionText K_core ''q2'' ''How was it?'' (Some 2) (Some exampleDoc) =
       Inl TypeError"
    by code_simp
  show ?thesis
    by (intro conjI) (rule h1 len ids replaced edited outside)+
qed

end
